theory Spec2Isabelle
  imports Main "HOL-Library.AList"
begin

section \<open>Python values, dictionaries and exceptions\<close>

text \<open>
  Payloads are untyped nested data. A dictionary is an association list, so that the
  order of its keys is the insertion order, as in Python: \<open>d[k] = v\<close> replaces the value
  in place when \<open>k\<close> is present and appends the pair otherwise (\<open>AList.update\<close>),
  \<open>d.pop(k, default)\<close> removes the key (\<open>AList.delete\<close>), \<open>d.get(k)\<close> reads it.
\<close>

datatype pyval =
    PNone
  | PBool bool
  | PInt int
  | PStr string
  | PList "pyval list"
  | PDict "(string \<times> pyval) list"

type_synonym pydict = "(string \<times> pyval) list"

datatype error = KeyError | TypeError | ValueError | AttributeError | NotFound

fun truthy :: "pyval \<Rightarrow> bool" where
  "truthy PNone = False"
| "truthy (PBool b) = b"
| "truthy (PInt n) = (n \<noteq> 0)"
| "truthy (PStr s) = (s \<noteq> [])"
| "truthy (PList xs) = (xs \<noteq> [])"
| "truthy (PDict d) = (d \<noteq> [])"

definition dict_get :: "pydict \<Rightarrow> string \<Rightarrow> pyval" where
  \<comment> \<open>\<open>d.get(k)\<close>: the value, or None.\<close>
  "dict_get d k = (case map_of d k of None \<Rightarrow> PNone | Some v \<Rightarrow> v)"

definition dict_get_default :: "pydict \<Rightarrow> string \<Rightarrow> pyval \<Rightarrow> pyval" where
  \<comment> \<open>\<open>d.get(k, default)\<close> and the value of \<open>d.pop(k, default)\<close>.\<close>
  "dict_get_default d k dflt = (case map_of d k of None \<Rightarrow> dflt | Some v \<Rightarrow> v)"

definition dict_item :: "pydict \<Rightarrow> string \<Rightarrow> error + pyval" where
  \<comment> \<open>\<open>d[k]\<close>: raises KeyError on a missing key.\<close>
  "dict_item d k = (case map_of d k of None \<Rightarrow> Inl KeyError | Some v \<Rightarrow> Inr v)"

definition dict_or :: "pydict \<Rightarrow> pydict \<Rightarrow> pydict" where
  \<comment> \<open>\<open>a | b\<close>, and \<open>for k, v in b.items(): a[k] = v\<close>: the pairs of \<open>b\<close> are
      written into \<open>a\<close> from left to right.\<close>
  "dict_or a b = fold (\<lambda>(k, v). AList.update k v) b a"

definition int_key :: "pyval \<Rightarrow> int option" where
  \<comment> \<open>The integer a value is equal to as a dictionary key or an enum value
      (\<open>True == 1\<close>, \<open>False == 0\<close>); None for a value that equals no integer.\<close>
  "int_key v = (case v of PInt n \<Rightarrow> Some n | PBool b \<Rightarrow> Some (if b then 1 else 0) | _ \<Rightarrow> None)"

definition hashable :: "pyval \<Rightarrow> bool" where
  "hashable v = (case v of PList _ \<Rightarrow> False | PDict _ \<Rightarrow> False | _ \<Rightarrow> True)"

section \<open>Auto-moderation actions and triggers (naff/models/discord/auto\_mod.py)\<close>

text \<open>
  The enums \<open>AutoModTriggerType\<close>, \<open>AutoModAction\<close> and \<open>AutoModLanuguageType\<close> are
  declared in \<open>naff.models.discord.enums\<close>, which is not among the sources at hand.
  They are integer enums: the factories look raw integers up in tables keyed by their
  members. The numbers of the members that \<open>auto_mod.py\<close> names, and the set of
  integers each enum's constructor accepts, are parameters of the model.
\<close>

record automod_enums =
  KEYWORD :: int
  HARMFUL_LINK :: int
  KEYWORD_PRESET :: int
  MENTION_SPAM :: int
  BLOCK_MESSAGE :: int
  ALERT_MESSAGE :: int
  TIMEOUT_USER :: int
  is_trigger_type :: "int \<Rightarrow> bool"
  is_action :: "int \<Rightarrow> bool"
  is_language_type :: "int \<Rightarrow> bool"

definition enum_converter :: "(int \<Rightarrow> bool) \<Rightarrow> pyval \<Rightarrow> error + int" where
  \<comment> \<open>\<open>SomeEnum(v)\<close>: the member whose number is \<open>v\<close>, ValueError when the enum
      accepts no such value.\<close>
  "enum_converter accepts v =
     (case int_key v of
        Some n \<Rightarrow> if accepts n then Inr n else Inl ValueError
      | None \<Rightarrow> Inl ValueError)"

fun convert_all :: "(pyval \<Rightarrow> error + 'a) \<Rightarrow> pyval list \<Rightarrow> error + 'a list" where
  "convert_all f [] = Inr []"
| "convert_all f (v # vs) =
     (case f v of
        Inl e \<Rightarrow> Inl e
      | Inr x \<Rightarrow> (case convert_all f vs of Inl e \<Rightarrow> Inl e | Inr xs \<Rightarrow> Inr (x # xs)))"

definition list_converter :: "(pyval \<Rightarrow> error + 'a) \<Rightarrow> pyval \<Rightarrow> error + 'a list" where
  \<comment> \<open>Modelled from the spec: \<open>naff.client.utils.list_converter\<close> is not among the
      sources; it is the converter of a list-valued field: it applies the element
      converter to every element of a list, and to a single value as a one-element list.\<close>
  "list_converter f v = (case v of PList vs \<Rightarrow> convert_all f vs | _ \<Rightarrow> convert_all f [v])"

definition keyword_converter :: "pyval \<Rightarrow> pyval list" where
  \<comment> \<open>\<open>_keyword_converter\<close>\<close>
  "keyword_converter v = (case v of PList vs \<Rightarrow> vs | _ \<Rightarrow> [v])"

datatype log_record = UnknownActionType pydict | UnknownTriggerType pydict

subsection \<open>Triggers\<close>

datatype trigger_class =
  BaseTriggerC | KeywordTriggerC | HarmfulLinkFilterC | KeywordPresetTriggerC | MentionSpamTriggerC

text \<open>
  An instance: its class and the values of its attrs fields, \<open>type\<close> first. The
  \<open>type\<close> of every class is an ordinary field that the caller may set; the default, where
  the class declares one, is the class's own tag.
\<close>

datatype trigger =
    BaseTrigger int
  | KeywordTrigger int "pyval list"
  | HarmfulLinkFilter int
  | KeywordPresetTrigger int "int list"
  | MentionSpamTrigger int pyval

definition TRIGGER_MAPPING :: "automod_enums \<Rightarrow> (int \<times> trigger_class) list" where
  "TRIGGER_MAPPING E =
     [(KEYWORD E, KeywordTriggerC),
      (HARMFUL_LINK E, HarmfulLinkFilterC),
      (KEYWORD_PRESET E, KeywordPresetTriggerC),
      (MENTION_SPAM E, MentionSpamTriggerC)]"

definition mapping_get :: "(int \<times> 'c) list \<Rightarrow> pyval \<Rightarrow> error + 'c option" where
  \<comment> \<open>\<open>MAPPING.get(v)\<close> on a table keyed by enum members: an unhashable key raises.\<close>
  "mapping_get table v =
     (if \<not> hashable v then Inl TypeError
      else Inr (case int_key v of None \<Rightarrow> None | Some n \<Rightarrow> map_of table n))"

definition trigger_init_keys :: "trigger_class \<Rightarrow> string list" where
  "trigger_init_keys c =
     (case c of
        BaseTriggerC \<Rightarrow> [''type'']
      | KeywordTriggerC \<Rightarrow> [''type'', ''keyword_filter'']
      | HarmfulLinkFilterC \<Rightarrow> [''type'']
      | KeywordPresetTriggerC \<Rightarrow> [''type'', ''keyword_lists'']
      | MentionSpamTriggerC \<Rightarrow> [''type'', ''mention_total_limit''])"

definition filter_kwargs :: "string list \<Rightarrow> pydict \<Rightarrow> pydict" where
  "filter_kwargs keys d = filter (\<lambda>(k, v). k \<in> set keys) d"

definition trigger_init :: "automod_enums \<Rightarrow> trigger_class \<Rightarrow> pydict \<Rightarrow> error + trigger" where
  \<comment> \<open>The attrs constructor \<open>cls(**kwargs)\<close> of each class as \<open>auto_mod.py\<close> declares its
      fields: a field without a default is required (TypeError), a default is used for
      a missing keyword, and the converters run in field order.\<close>
  "trigger_init E c kw =
     (case c of
        BaseTriggerC \<Rightarrow>
          (case map_of kw ''type'' of
             None \<Rightarrow> Inl TypeError
           | Some v \<Rightarrow>
               (case enum_converter (is_trigger_type E) v of
                  Inl e \<Rightarrow> Inl e | Inr t \<Rightarrow> Inr (BaseTrigger t)))
      | KeywordTriggerC \<Rightarrow>
          (case enum_converter (is_trigger_type E)
                  (dict_get_default kw ''type'' (PInt (KEYWORD E))) of
             Inl e \<Rightarrow> Inl e
           | Inr t \<Rightarrow>
               Inr (KeywordTrigger t
                      (keyword_converter (dict_get_default kw ''keyword_filter'' (PList [])))))
      | HarmfulLinkFilterC \<Rightarrow>
          (case enum_converter (is_trigger_type E)
                  (dict_get_default kw ''type'' (PInt (HARMFUL_LINK E))) of
             Inl e \<Rightarrow> Inl e
           | Inr t \<Rightarrow> Inr (HarmfulLinkFilter t))
      | KeywordPresetTriggerC \<Rightarrow>
          (case enum_converter (is_trigger_type E)
                  (dict_get_default kw ''type'' (PInt (KEYWORD_PRESET E))) of
             Inl e \<Rightarrow> Inl e
           | Inr t \<Rightarrow>
               (case list_converter (enum_converter (is_language_type E))
                       (dict_get_default kw ''keyword_lists'' (PList [])) of
                  Inl e \<Rightarrow> Inl e
                | Inr ls \<Rightarrow> Inr (KeywordPresetTrigger t ls)))
      | MentionSpamTriggerC \<Rightarrow>
          (case map_of kw ''type'' of
             None \<Rightarrow> Inl TypeError
           | Some v \<Rightarrow>
               (case enum_converter (is_trigger_type E) v of
                  Inl e \<Rightarrow> Inl e
                | Inr t \<Rightarrow>
                    Inr (MentionSpamTrigger t
                           (dict_get_default kw ''mention_total_limit'' (PInt 3))))))"

definition trigger_process_dict :: "pydict \<Rightarrow> error + pydict" where
  \<comment> \<open>\<open>BaseTrigger._process_dict\<close>: the entries of a truthy \<open>trigger_metadata\<close> are
      written into the payload; \<open>.items()\<close> of a value that is no dict raises.\<close>
  "trigger_process_dict data =
     (let meta = dict_get data ''trigger_metadata'' in
      if truthy meta
      then (case meta of PDict m \<Rightarrow> Inr (dict_or data m) | _ \<Rightarrow> Inl AttributeError)
      else Inr data)"

definition trigger_from_dict :: "automod_enums \<Rightarrow> trigger_class \<Rightarrow> pydict \<Rightarrow> error + trigger" where
  \<comment> \<open>Modelled from the spec: \<open>DictSerializationMixin.from_dict\<close> is not among the
      sources. It constructs the record of class \<open>cls\<close> from a payload: the class's
      \<open>_process_dict\<close> hook (in the sources) rewrites the payload, the entries that are
      fields of the class are kept, and the constructor is called with them.\<close>
  "trigger_from_dict E c data =
     (case trigger_process_dict data of
        Inl e \<Rightarrow> Inl e
      | Inr d \<Rightarrow> trigger_init E c (filter_kwargs (trigger_init_keys c) d))"

definition trigger_from_dict_factory ::
  "automod_enums \<Rightarrow> trigger_class \<Rightarrow> pydict \<Rightarrow> log_record list \<times> (error + trigger)" where
  \<comment> \<open>\<open>BaseTrigger.from_dict_factory\<close>, a classmethod: \<open>cls\<close> is the class it is called
      on (BaseTrigger wherever the sources call it). The result is the records written
      to the logger and the value returned or the exception raised.\<close>
  "trigger_from_dict_factory E cls data =
     (case mapping_get (TRIGGER_MAPPING E) (dict_get data ''trigger_type'') of
        Inl e \<Rightarrow> ([], Inl e)
      | Inr found \<Rightarrow>
          (let meta = dict_get_default data ''trigger_metadata'' (PDict []);
               payload = [(''type'', dict_get data ''trigger_type''), (''trigger_metadata'', meta)]
           in case found of
                None \<Rightarrow> ([UnknownTriggerType data], trigger_from_dict E cls payload)
              | Some trigger_class \<Rightarrow> ([], trigger_from_dict E trigger_class payload)))"

definition trigger_asdict :: "trigger \<Rightarrow> pydict" where
  \<comment> \<open>\<open>attrs.asdict(self)\<close>: the fields in declaration order.\<close>
  "trigger_asdict t =
     (case t of
        BaseTrigger ty \<Rightarrow> [(''type'', PInt ty)]
      | KeywordTrigger ty kf \<Rightarrow> [(''type'', PInt ty), (''keyword_filter'', PList kf)]
      | HarmfulLinkFilter ty \<Rightarrow> [(''type'', PInt ty)]
      | KeywordPresetTrigger ty ls \<Rightarrow> [(''type'', PInt ty), (''keyword_lists'', PList (map PInt ls))]
      | MentionSpamTrigger ty n \<Rightarrow> [(''type'', PInt ty), (''mention_total_limit'', n)])"

definition pop_all_but_type :: "pydict \<Rightarrow> pydict \<times> pydict" where
  \<comment> \<open>\<open>{k: data.pop(k) for k, v in data.copy().items() if k != "type"}\<close>: the
      popped entries, and what is left of \<open>data\<close>.\<close>
  "pop_all_but_type data =
     (filter (\<lambda>(k, v). k \<noteq> ''type'') data, filter (\<lambda>(k, v). k = ''type'') data)"

definition trigger_as_dict :: "trigger \<Rightarrow> pydict" where
  \<comment> \<open>\<open>BaseTrigger.as_dict\<close>\<close>
  "trigger_as_dict t =
     (let (meta, data) = pop_all_but_type (trigger_asdict t);
          data = AList.update ''trigger_metadata'' (PDict meta) data;
          data = AList.update ''trigger_type'' (dict_get data ''type'') (AList.delete ''type'' data)
      in data)"

subsection \<open>Actions\<close>

datatype action_class = BaseActionC | BlockMessageC | AlertMessageC | TimeoutUserC

datatype action =
    BaseAction int
  | BlockMessage int
  | AlertMessage pyval int
  | TimeoutUser pyval int

definition ACTION_MAPPING :: "automod_enums \<Rightarrow> (int \<times> action_class) list" where
  "ACTION_MAPPING E =
     [(BLOCK_MESSAGE E, BlockMessageC),
      (ALERT_MESSAGE E, AlertMessageC),
      (TIMEOUT_USER E, TimeoutUserC)]"

definition action_init_keys :: "action_class \<Rightarrow> string list" where
  "action_init_keys c =
     (case c of
        BaseActionC \<Rightarrow> [''type'']
      | BlockMessageC \<Rightarrow> [''type'']
      | AlertMessageC \<Rightarrow> [''channel_id'', ''type'']
      | TimeoutUserC \<Rightarrow> [''duration_seconds'', ''type''])"

definition action_init :: "automod_enums \<Rightarrow> action_class \<Rightarrow> pydict \<Rightarrow> error + action" where
  "action_init E c kw =
     (case c of
        BaseActionC \<Rightarrow>
          (case map_of kw ''type'' of
             None \<Rightarrow> Inl TypeError
           | Some v \<Rightarrow>
               (case enum_converter (is_action E) v of
                  Inl e \<Rightarrow> Inl e | Inr t \<Rightarrow> Inr (BaseAction t)))
      | BlockMessageC \<Rightarrow>
          (case enum_converter (is_action E)
                  (dict_get_default kw ''type'' (PInt (BLOCK_MESSAGE E))) of
             Inl e \<Rightarrow> Inl e
           | Inr t \<Rightarrow> Inr (BlockMessage t))
      | AlertMessageC \<Rightarrow>
          (case map_of kw ''channel_id'' of
             None \<Rightarrow> Inl TypeError
           | Some ch \<Rightarrow>
               (case enum_converter (is_action E)
                       (dict_get_default kw ''type'' (PInt (ALERT_MESSAGE E))) of
                  Inl e \<Rightarrow> Inl e
                | Inr t \<Rightarrow> Inr (AlertMessage ch t)))
      | TimeoutUserC \<Rightarrow>
          (case enum_converter (is_action E)
                  (dict_get_default kw ''type'' (PInt (TIMEOUT_USER E))) of
             Inl e \<Rightarrow> Inl e
           | Inr t \<Rightarrow> Inr (TimeoutUser (dict_get_default kw ''duration_seconds'' (PInt 60)) t)))"

definition action_from_dict :: "automod_enums \<Rightarrow> action_class \<Rightarrow> pydict \<Rightarrow> error + action" where
  \<comment> \<open>Modelled from the spec: \<open>DictSerializationMixin.from_dict\<close>, as for triggers;
      the action classes have no \<open>_process_dict\<close> hook of their own.\<close>
  "action_from_dict E c data = action_init E c (filter_kwargs (action_init_keys c) data)"

definition action_from_dict_factory ::
  "automod_enums \<Rightarrow> action_class \<Rightarrow> pydict \<Rightarrow> log_record list \<times> (error + action)" where
  \<comment> \<open>\<open>BaseAction.from_dict_factory\<close>\<close>
  "action_from_dict_factory E cls data =
     (case mapping_get (ACTION_MAPPING E) (dict_get data ''type'') of
        Inl e \<Rightarrow> ([], Inl e)
      | Inr found \<Rightarrow>
          (let logged = (case found of None \<Rightarrow> [UnknownActionType data] | Some _ \<Rightarrow> []);
               action_class = (case found of None \<Rightarrow> cls | Some c \<Rightarrow> c)
           in case dict_item data ''metadata'' of
                Inl e \<Rightarrow> (logged, Inl e)
              | Inr (PDict m) \<Rightarrow>
                  (logged, action_from_dict E action_class
                             (dict_or [(''type'', dict_get data ''type'')] m))
              | Inr _ \<Rightarrow> (logged, Inl TypeError)))"

definition discord_enums :: automod_enums where
  \<comment> \<open>One declaration of the enums: Discord's numbering of the trigger types (1 keyword,
      2 harmful link, 3 spam, 4 keyword preset, 5 mention spam) and of the action types
      (1 block message, 2 alert message, 3 timeout), with every number of the wire
      protocol a member. Trigger type 3 is a member that \<open>TRIGGER_MAPPING\<close> does not
      list.\<close>
  "discord_enums =
     \<lparr> KEYWORD = 1, HARMFUL_LINK = 2, KEYWORD_PRESET = 4, MENTION_SPAM = 5,
       BLOCK_MESSAGE = 1, ALERT_MESSAGE = 2, TIMEOUT_USER = 3,
       is_trigger_type = (\<lambda>n. 1 \<le> n \<and> n \<le> 5),
       is_action = (\<lambda>n. 1 \<le> n \<and> n \<le> 3),
       is_language_type = (\<lambda>n. 1 \<le> n \<and> n \<le> 3) \<rparr>"

section \<open>Identifiers\<close>

definition digit_of :: "char \<Rightarrow> nat option" where
  "digit_of c = (if c \<in> set ''0123456789'' then Some (of_char c - 48) else None)"

fun decimal :: "nat \<Rightarrow> string \<Rightarrow> nat option" where
  "decimal acc [] = Some acc"
| "decimal acc (c # cs) =
     (case digit_of c of None \<Rightarrow> None | Some d \<Rightarrow> decimal (10 * acc + d) cs)"

definition py_int :: "pyval \<Rightarrow> error + int" where
  \<comment> \<open>Python's \<open>int(v)\<close> on a payload value. A string is read as a plain decimal
      literal with an optional sign, the form in which identifiers arrive; the
      other spellings \<open>int\<close> accepts (surrounding blanks, underscores) are read as
      ValueError here.\<close>
  "py_int v =
     (case v of
        PInt n \<Rightarrow> Inr n
      | PBool b \<Rightarrow> Inr (if b then 1 else 0)
      | PStr s \<Rightarrow>
          (case s of
             [] \<Rightarrow> Inl ValueError
           | c # cs \<Rightarrow>
               if c = CHR ''-'' \<or> c = CHR ''+''
               then (if cs = [] then Inl ValueError
                     else case decimal 0 cs of
                            None \<Rightarrow> Inl ValueError
                          | Some n \<Rightarrow> Inr (if c = CHR ''-'' then - int n else int n))
               else (case decimal 0 s of None \<Rightarrow> Inl ValueError | Some n \<Rightarrow> Inr (int n)))
      | _ \<Rightarrow> Inl TypeError)"

definition to_snowflake :: "pyval \<Rightarrow> error + int" where
  \<comment> \<open>Modelled from the spec: \<open>to_snowflake\<close> is not among the sources. The
      identifier type is a 64-bit unsigned integer with a string/numeric equivalence:
      an integer, or a string that spells one, in range.\<close>
  "to_snowflake v =
     (case v of
        PInt n \<Rightarrow> if 0 \<le> n \<and> n < 2 ^ 64 then Inr n else Inl ValueError
      | PStr s \<Rightarrow>
          (case py_int (PStr s) of
             Inl e \<Rightarrow> Inl e
           | Inr n \<Rightarrow> if 0 \<le> n \<and> n < 2 ^ 64 then Inr n else Inl ValueError)
      | _ \<Rightarrow> Inl TypeError)"

definition py_iter :: "pyval \<Rightarrow> error + pyval list" where
  \<comment> \<open>What \<open>for x in v\<close> runs over: the elements of a list, the keys of a dict, the
      characters of a string; TypeError for a value that is not iterable.\<close>
  "py_iter v =
     (case v of
        PList xs \<Rightarrow> Inr xs
      | PDict d \<Rightarrow> Inr (map (\<lambda>(k, x). PStr k) d)
      | PStr s \<Rightarrow> Inr (map (\<lambda>c. PStr [c]) s)
      | _ \<Rightarrow> Inl TypeError)"

definition py_item :: "pyval \<Rightarrow> string \<Rightarrow> error + pyval" where
  \<comment> \<open>\<open>v["k"]\<close> with a string key: only a dict has one.\<close>
  "py_item v k = (case v of PDict d \<Rightarrow> dict_item d k | _ \<Rightarrow> Inl TypeError)"

section \<open>The client: object heap, entity store, dispatched events\<close>

text \<open>
  Entity records are objects: the heap maps an address to the fields of the object
  there, and each per-kind store maps an identifier to an address. An event carries
  references, so that whether two of them are one object can be stated.
  \<open>trace\<close> lists the store writes and the dispatched events in the order they
  happened.
\<close>

datatype ref = Missing | PyNone | Obj nat

datatype event =
    GuildJoin nat
  | GuildUpdate ref nat
  | GuildUnavailable int ref
  | GuildLeft int ref
  | BanCreate pyval nat
  | BanRemove pyval nat
  | IntegrationCreate nat
  | IntegrationUpdate nat
  | IntegrationDelete pyval pyval pyval
  | GuildEmojisUpdate pyval "ref list" "nat list"
  | GuildStickersUpdate pyval "nat list"
  | WebhooksUpdate pyval pyval

datatype kind = Guild | Channel | Member | Role | User | Emoji

datatype effect = Stored kind int | Evicted int | Dispatched event

record client =
  heap :: "nat \<Rightarrow> pydict option"
  next_addr :: nat
  guild_cache :: "int \<Rightarrow> nat option"
  channel_cache :: "int \<Rightarrow> nat option"
  member_cache :: "int \<times> int \<Rightarrow> nat option"
  role_cache :: "int \<times> int \<Rightarrow> nat option"
  user_cache :: "int \<Rightarrow> nat option"
  emoji_cache :: "(int \<Rightarrow> nat option) option"
  guild_ids :: "int set"
  guild_event :: bool
  fetch_members :: bool
  chunked :: "nat set"
  trace :: "effect list"

definition or_MISSING :: "nat option \<Rightarrow> ref" where
  \<comment> \<open>\<open>x or MISSING\<close> for \<open>x\<close> an entity object or None: an object is truthy.\<close>
  "or_MISSING x = (case x of None \<Rightarrow> Missing | Some a \<Rightarrow> Obj a)"

definition dispatch :: "event \<Rightarrow> client \<Rightarrow> client" where
  \<comment> \<open>Modelled from the spec: the client's \<open>dispatch\<close> is not among the sources; it
      emits a domain event to the observers without suspending the caller. The event is
      recorded in the trace.\<close>
  "dispatch ev s = s\<lparr>trace := trace s @ [Dispatched ev]\<rparr>"

definition obj_fields :: "client \<Rightarrow> nat \<Rightarrow> pydict" where
  "obj_fields s a = (case heap s a of None \<Rightarrow> [] | Some f \<Rightarrow> f)"

definition obj_id :: "client \<Rightarrow> nat \<Rightarrow> pyval" where
  \<comment> \<open>\<open>obj.id\<close>\<close>
  "obj_id s a = dict_get (obj_fields s a) ''id''"

definition new_object :: "client \<Rightarrow> pydict \<Rightarrow> client \<times> nat" where
  "new_object s flds =
     (let a = next_addr s in (s\<lparr>heap := (heap s)(a \<mapsto> flds), next_addr := Suc a\<rparr>, a))"

definition copy_copy :: "client \<Rightarrow> nat option \<Rightarrow> client \<times> nat option" where
  \<comment> \<open>\<open>copy.copy(x)\<close>: a new object with the fields of \<open>x\<close>; None for None. Field
      values are immutable here and a store write replaces them, so the shallow copy
      shares nothing that changes.\<close>
  "copy_copy s x =
     (case x of
        None \<Rightarrow> (s, None)
      | Some a \<Rightarrow> (let (s1, b) = new_object s (obj_fields s a) in (s1, Some b)))"

subsection \<open>The entity store\<close>

definition put :: "client \<Rightarrow> nat option \<Rightarrow> int \<Rightarrow> pydict \<Rightarrow> client \<times> nat" where
  \<comment> \<open>Modelled from the spec: the store's \<open>put\<close> (the cache class is not among the
      sources) merges the fields into the existing record, creating it if absent:
      fields present in the new payload replace old values, absent ones are kept. The
      record carries its identifier.\<close>
  "put s existing i flds =
     (case existing of
        Some a \<Rightarrow>
          (s\<lparr>heap := (heap s)(a \<mapsto> AList.update ''id'' (PInt i) (dict_or (obj_fields s a) flds))\<rparr>, a)
      | None \<Rightarrow> new_object s (AList.update ''id'' (PInt i) flds))"

definition entity_id :: "pyval \<Rightarrow> error + int \<times> pydict" where
  \<comment> \<open>Modelled from the spec: the identifier of an embedded object, converted, and the
      object's fields; an object without an identifier fails the update.\<close>
  "entity_id v =
     (case v of
        PDict d \<Rightarrow>
          (case dict_item d ''id'' of
             Inl e \<Rightarrow> Inl e
           | Inr r \<Rightarrow> (case to_snowflake r of Inl e \<Rightarrow> Inl e | Inr i \<Rightarrow> Inr (i, d)))
      | _ \<Rightarrow> Inl TypeError)"

definition get_guild :: "client \<Rightarrow> int \<Rightarrow> nat option" where
  \<comment> \<open>Modelled from the spec: \<open>get(kind, id)\<close> returns the record or absent, at once.\<close>
  "get_guild s i = guild_cache s i"

definition get_channel :: "client \<Rightarrow> int \<Rightarrow> nat option" where
  \<comment> \<open>Modelled from the spec: \<open>get\<close> for the channel store.\<close>
  "get_channel s i = channel_cache s i"

definition get_member :: "client \<Rightarrow> int \<Rightarrow> int \<Rightarrow> nat option" where
  \<comment> \<open>Modelled from the spec: \<open>get_guild_scoped\<close> for the member store, a two-level
      lookup.\<close>
  "get_member s g i = member_cache s (g, i)"

definition get_user :: "client \<Rightarrow> int \<Rightarrow> nat option" where
  \<comment> \<open>Modelled from the spec: \<open>get\<close> for the user store.\<close>
  "get_user s i = user_cache s i"

definition get_emoji :: "client \<Rightarrow> pyval \<Rightarrow> error + nat option" where
  \<comment> \<open>Modelled from the spec: \<open>get\<close> for the emoji store, called with the raw
      identifier of the payload; absent when the emoji cache is disabled.\<close>
  "get_emoji s v =
     (case emoji_cache s of
        None \<Rightarrow> Inr None
      | Some m \<Rightarrow> (case to_snowflake v of Inl e \<Rightarrow> Inl e | Inr i \<Rightarrow> Inr (m i)))"

definition place_channel_data :: "client \<Rightarrow> pyval \<Rightarrow> error + client \<times> nat" where
  \<comment> \<open>Modelled from the spec: \<open>put\<close> of one channel (or thread) payload into the
      channel store; returns the record.\<close>
  "place_channel_data s v =
     (case entity_id v of
        Inl e \<Rightarrow> Inl e
      | Inr (i, flds) \<Rightarrow>
          (let (s1, a) = put s (channel_cache s i) i flds
           in Inr (s1\<lparr>channel_cache := (channel_cache s1)(i \<mapsto> a),
                       trace := trace s1 @ [Stored Channel i]\<rparr>, a)))"


definition place_member_data :: "client \<Rightarrow> pyval \<Rightarrow> pyval \<Rightarrow> error + client \<times> nat" where
  \<comment> \<open>Modelled from the spec: \<open>put\<close> of one member payload into the guild-scoped
      member store, keyed by guild identifier and then by entity identifier.\<close>
  "place_member_data s guild_id v =
     (case to_snowflake guild_id of
        Inl e \<Rightarrow> Inl e
      | Inr g \<Rightarrow>
          (case entity_id v of
             Inl e \<Rightarrow> Inl e
           | Inr (i, flds) \<Rightarrow>
               (let (s1, a) = put s (member_cache s (g, i)) i flds
                in Inr (s1\<lparr>member_cache := (member_cache s1)((g, i) \<mapsto> a),
                            trace := trace s1 @ [Stored Member i]\<rparr>, a))))"

fun place_roles ::
  "client \<Rightarrow> int \<Rightarrow> pyval list \<Rightarrow> (int \<times> nat) list \<Rightarrow> error + client \<times> (int \<times> nat) list" where
  "place_roles s g [] roles = Inr (s, roles)"
| "place_roles s g (v # vs) roles =
     (case entity_id v of
        Inl e \<Rightarrow> Inl e
      | Inr (i, flds) \<Rightarrow>
          (let (s1, a) = put s (role_cache s (g, i)) i flds
           in place_roles
                (s1\<lparr>role_cache := (role_cache s1)((g, i) \<mapsto> a),
                     trace := trace s1 @ [Stored Role i]\<rparr>)
                g vs (AList.update i a roles)))"

definition place_role_data ::
  "client \<Rightarrow> pyval \<Rightarrow> pyval \<Rightarrow> error + client \<times> (int \<times> nat) list" where
  \<comment> \<open>Modelled from the spec: \<open>put\<close> of every role payload of a list into the
      guild-scoped role store. The caller takes \<open>.keys()\<close> of the result as the role
      identifiers: the result is a dict from role identifier to record, filled in the
      order of the list (a key written twice keeps its first place).\<close>
  "place_role_data s guild_id roles_data =
     (case to_snowflake guild_id of
        Inl e \<Rightarrow> Inl e
      | Inr g \<Rightarrow>
          (case py_iter roles_data of
             Inl e \<Rightarrow> Inl e
           | Inr vs \<Rightarrow> place_roles s g vs []))"

definition emoji_cache_truthy :: "client \<Rightarrow> bool" where
  \<comment> \<open>\<open>if self.cache.emoji_cache:\<close> the cache is None when disabled, and a mapping is
      false when it is empty.\<close>
  "emoji_cache_truthy s = (case emoji_cache s of None \<Rightarrow> False | Some m \<Rightarrow> m \<noteq> Map.empty)"

definition place_emoji_data :: "client \<Rightarrow> pyval \<Rightarrow> pyval \<Rightarrow> error + client \<times> nat" where
  \<comment> \<open>Modelled from the spec: \<open>put\<close> of one emoji payload of a guild; the record is
      built and returned, and kept in the emoji store when the emoji cache is enabled.\<close>
  "place_emoji_data s guild_id v =
     (case to_snowflake guild_id of
        Inl e \<Rightarrow> Inl e
      | Inr g \<Rightarrow>
          (case entity_id v of
             Inl e \<Rightarrow> Inl e
           | Inr (i, flds) \<Rightarrow>
               (case emoji_cache s of
                  None \<Rightarrow>
                    Inr (new_object s
                           (AList.update ''id'' (PInt i) (AList.update ''guild_id'' (PInt g) flds)))
                | Some m \<Rightarrow>
                    (let (s1, a) = put s (m i) i (AList.update ''guild_id'' (PInt g) flds)
                     in Inr (s1\<lparr>emoji_cache := Some (m(i \<mapsto> a)),
                                 trace := trace s1 @ [Stored Emoji i]\<rparr>, a)))))"


fun place_list ::
  "(client \<Rightarrow> pyval \<Rightarrow> error + client \<times> nat) \<Rightarrow> client \<Rightarrow> pyval list \<Rightarrow> error + client \<times> nat list" where
  \<comment> \<open>\<open>[place(x) for x in xs]\<close>\<close>
  "place_list place s [] = Inr (s, [])"
| "place_list place s (v # vs) =
     (case place s v of
        Inl e \<Rightarrow> Inl e
      | Inr (s1, a) \<Rightarrow>
          (case place_list place s1 vs of
             Inl e \<Rightarrow> Inl e
           | Inr (s2, as) \<Rightarrow> Inr (s2, a # as)))"

fun place_ids ::
  "(client \<Rightarrow> pyval \<Rightarrow> error + client \<times> nat) \<Rightarrow> client \<Rightarrow> pyval list \<Rightarrow> error + client \<times> pyval list" where
  \<comment> \<open>\<open>[place(x).id for x in xs]\<close>\<close>
  "place_ids place s [] = Inr (s, [])"
| "place_ids place s (v # vs) =
     (case place s v of
        Inl e \<Rightarrow> Inl e
      | Inr (s1, a) \<Rightarrow>
          (case place_ids place s1 vs of
             Inl e \<Rightarrow> Inl e
           | Inr (s2, ids) \<Rightarrow> Inr (s2, obj_id s1 a # ids)))"

section \<open>Guild decomposition (dis\_snek/models/discord\_objects/guild.py)\<close>

definition decompose_field ::
  "(client \<Rightarrow> pyval \<Rightarrow> error + client \<times> nat) \<Rightarrow> string \<Rightarrow> string \<Rightarrow> client \<Rightarrow> pydict
     \<Rightarrow> error + client \<times> pydict" where
  \<comment> \<open>\<open>xs = data.pop(key, []); data[ids_key] = [place(x).id for x in xs]\<close>\<close>
  "decompose_field place key ids_key s data =
     (let xs = dict_get_default data key (PList []);
          data = AList.delete key data
      in case py_iter xs of
           Inl e \<Rightarrow> Inl e
         | Inr vs \<Rightarrow>
             (case place_ids place s vs of
                Inl e \<Rightarrow> Inl e
              | Inr (s1, ids) \<Rightarrow> Inr (s1, AList.update ids_key (PList ids) data)))"

definition process_dict :: "client \<Rightarrow> pydict \<Rightarrow> error + client \<times> pydict" where
  \<comment> \<open>\<open>Guild.process_dict(data, client)\<close>: the store after it, and the normalized
      payload.\<close>
  "process_dict s data =
     (case dict_item data ''id'' of
        Inl e \<Rightarrow> Inl e
      | Inr guild_id \<Rightarrow>
     (case decompose_field place_channel_data ''channels'' ''channel_ids'' s data of
        Inl e \<Rightarrow> Inl e
      | Inr (s1, data1) \<Rightarrow>
     (case decompose_field place_channel_data ''threads'' ''thread_ids'' s1 data1 of
        Inl e \<Rightarrow> Inl e
      | Inr (s2, data2) \<Rightarrow>
     (case decompose_field (\<lambda>s v. place_member_data s guild_id v)
             ''members'' ''member_ids'' s2 data2 of
        Inl e \<Rightarrow> Inl e
      | Inr (s3, data3) \<Rightarrow>
          (let roles_data = dict_get_default data3 ''roles'' (PList []);
               data4 = AList.delete ''roles'' data3
           in case place_role_data s3 guild_id roles_data of
                Inl e \<Rightarrow> Inl e
              | Inr (s4, roles) \<Rightarrow>
                  Inr (s4, AList.update ''role_ids'' (PList (map (\<lambda>(i, a). PInt i) roles)) data4))))))"

definition place_guild_data :: "client \<Rightarrow> pydict \<Rightarrow> error + client \<times> nat" where
  \<comment> \<open>Modelled from the spec: \<open>put\<close> of a guild payload (the cache class is not among
      the sources): the payload is decomposed, and the normalized payload is merged into
      the guild's record, creating it if absent; returns the record.\<close>
  "place_guild_data s data =
     (case entity_id (PDict data) of
        Inl e \<Rightarrow> Inl e
      | Inr (i, data0) \<Rightarrow>
          (case process_dict s data0 of
             Inl e \<Rightarrow> Inl e
           | Inr (s1, normalized) \<Rightarrow>
               (let (s2, a) = put s1 (guild_cache s1 i) i normalized
                in Inr (s2\<lparr>guild_cache := (guild_cache s2)(i \<mapsto> a),
                            trace := trace s2 @ [Stored Guild i]\<rparr>, a))))"

definition delete_guild :: "client \<Rightarrow> int \<Rightarrow> client" where
  \<comment> \<open>Modelled from the spec: \<open>delete_guild\<close> drops the guild's record and the guild's
      sub-store (here: its members and roles) at once; it is a mapping mutation and
      nothing else, also for a guild that is not in the store.\<close>
  "delete_guild s g =
     s\<lparr>guild_cache := (guild_cache s)(g := None),
       member_cache := (\<lambda>(g', i). if g' = g then None else member_cache s (g', i)),
       role_cache := (\<lambda>(g', i). if g' = g then None else role_cache s (g', i)),
       trace := trace s @ [Evicted g]\<rparr>"

section \<open>Event processors (naff/api/events/processors/guild\_events.py)\<close>

text \<open>
  A processor is a coroutine. It runs until it returns, raises, or suspends at an
  \<open>await\<close>; a suspended processor holds the client as it left it and its continuation,
  which the scheduler calls with the client as it is when the awaited thing is done.
  \<open>AwaitChunk g\<close> waits for the member chunking of the guild object \<open>g\<close>,
  \<open>AwaitFetch i\<close> for the origin layer's answer for guild \<open>i\<close> (its payload, or None
  for not found). The client after an exception is not modelled.
\<close>

datatype step =
    Done client
  | Raise error
  | AwaitChunk nat client "client \<Rightarrow> step"
  | AwaitFetch int client "pydict option \<Rightarrow> client \<Rightarrow> step"








definition on_raw_guild_delete :: "client \<Rightarrow> pydict \<Rightarrow> step" where
  "on_raw_guild_delete s data =
     (case py_int (dict_get data ''id'') of
        Inl e \<Rightarrow> Raise e
      | Inr guild_id \<Rightarrow>
          if truthy (dict_get_default data ''unavailable'' (PBool False))
          then Done (dispatch (GuildUnavailable guild_id (or_MISSING (get_guild s guild_id))) s)
          else (let s1 = (if guild_id \<in> guild_ids s
                          then s\<lparr>guild_ids := guild_ids s - {guild_id}\<rparr> else s);
                    guild = get_guild s1 guild_id;
                    s2 = delete_guild s1 guild_id
                in Done (dispatch (GuildLeft guild_id (or_MISSING guild)) s2)))"






fun snapshot_emojis :: "client \<Rightarrow> pyval list \<Rightarrow> error + client \<times> ref list" where
  \<comment> \<open>\<open>[copy.copy(self.cache.get_emoji(emoji["id"])) for emoji in emojis]\<close>\<close>
  "snapshot_emojis s [] = Inr (s, [])"
| "snapshot_emojis s (emoji # emojis) =
     (case py_item emoji ''id'' of
        Inl e \<Rightarrow> Inl e
      | Inr i \<Rightarrow>
          (case get_emoji s i of
             Inl e \<Rightarrow> Inl e
           | Inr cached \<Rightarrow>
               (let (s1, c) = copy_copy s cached
                in case snapshot_emojis s1 emojis of
                     Inl e \<Rightarrow> Inl e
                   | Inr (s2, rest) \<Rightarrow>
                       Inr (s2, (case c of None \<Rightarrow> PyNone | Some b \<Rightarrow> Obj b) # rest))))"

definition on_raw_guild_emojis_update :: "client \<Rightarrow> pydict \<Rightarrow> step" where
  "on_raw_guild_emojis_update s data =
     (let guild_id = dict_get data ''guild_id'';
          emojis = dict_get data ''emojis'';
          snapshot = (if emoji_cache_truthy s
                      then (case py_iter emojis of
                              Inl e \<Rightarrow> Inl e
                            | Inr es \<Rightarrow> snapshot_emojis s es)
                      else Inr (s, []))
      in case snapshot of
           Inl e \<Rightarrow> Raise e
         | Inr (s1, before) \<Rightarrow>
             (case py_iter emojis of
                Inl e \<Rightarrow> Raise e
              | Inr es \<Rightarrow>
                  (case place_list (\<lambda>s v. place_emoji_data s guild_id v) s1 es of
                     Inl e \<Rightarrow> Raise e
                   | Inr (s2, after) \<Rightarrow>
                       Done (dispatch (GuildEmojisUpdate guild_id before after) s2))))"




section \<open>Message accessors (naff/models/discord/message.py)\<close>

record message =
  channel_id :: int
  guild_id :: "int option"
  author_id :: "int option"

datatype channel_result = NoChannel | CachedChannel nat | DMChannel int "ref list"

definition snowflake_truthy :: "int option \<Rightarrow> bool" where
  \<comment> \<open>The truth value of an optional identifier: None and 0 are false.\<close>
  "snowflake_truthy x = (case x of None \<Rightarrow> False | Some n \<Rightarrow> n \<noteq> 0)"

definition message_guild :: "client \<Rightarrow> message \<Rightarrow> nat option" where
  \<comment> \<open>\<open>BaseMessage.guild\<close>\<close>
  "message_guild s m = (case guild_id m of None \<Rightarrow> None | Some g \<Rightarrow> get_guild s g)"

definition message_author :: "client \<Rightarrow> message \<Rightarrow> ref" where
  \<comment> \<open>\<open>BaseMessage.author\<close>\<close>
  "message_author s m =
     (if snowflake_truthy (author_id m)
      then (let member = (if snowflake_truthy (guild_id m)
                          then get_member s (the (guild_id m)) (the (author_id m))
                          else None)
            in case member of
                 Some a \<Rightarrow> Obj a
               | None \<Rightarrow> (case get_user s (the (author_id m)) of None \<Rightarrow> PyNone | Some u \<Rightarrow> Obj u))
      else Missing)"

definition message_channel :: "client \<Rightarrow> message \<Rightarrow> channel_result" where
  \<comment> \<open>\<open>BaseMessage.channel\<close>. \<open>BaseChannel.from_dict_factory\<close> (not among the sources)
      builds a channel object of the given type from the payload; the object is the
      accessor's own, not the store's.\<close>
  "message_channel s m =
     (case get_channel s (channel_id m) of
        Some c \<Rightarrow> CachedChannel c
      | None \<Rightarrow>
          if \<not> snowflake_truthy (guild_id m)
          then DMChannel (channel_id m)
                 (case message_author s m of Obj a \<Rightarrow> [Obj a] | _ \<Rightarrow> [])
          else NoChannel)"

section \<open>Notions used in the statements\<close>

definition empty_client :: client where
  \<comment> \<open>A client that has seen nothing yet: empty stores, emoji cache disabled.\<close>
  "empty_client =
     \<lparr> heap = Map.empty, next_addr = 0, guild_cache = Map.empty, channel_cache = Map.empty,
       member_cache = Map.empty, role_cache = Map.empty, user_cache = Map.empty,
       emoji_cache = None, guild_ids = {}, guild_event = False, fetch_members = False,
       chunked = {}, trace = [] \<rparr>"

definition trigger_class_of :: "trigger \<Rightarrow> trigger_class" where
  "trigger_class_of t =
     (case t of
        BaseTrigger _ \<Rightarrow> BaseTriggerC
      | KeywordTrigger _ _ \<Rightarrow> KeywordTriggerC
      | HarmfulLinkFilter _ \<Rightarrow> HarmfulLinkFilterC
      | KeywordPresetTrigger _ _ \<Rightarrow> KeywordPresetTriggerC
      | MentionSpamTrigger _ _ \<Rightarrow> MentionSpamTriggerC)"

definition trigger_type :: "trigger \<Rightarrow> int" where
  \<comment> \<open>The \<open>type\<close> field of an instance.\<close>
  "trigger_type t =
     (case t of
        BaseTrigger ty \<Rightarrow> ty
      | KeywordTrigger ty _ \<Rightarrow> ty
      | HarmfulLinkFilter ty \<Rightarrow> ty
      | KeywordPresetTrigger ty _ \<Rightarrow> ty
      | MentionSpamTrigger ty _ \<Rightarrow> ty)"

definition converted :: "automod_enums \<Rightarrow> trigger \<Rightarrow> bool" where
  \<comment> \<open>The enum-valued fields of the instance hold members of their enums, as the
      converters of the constructor leave them.\<close>
  "converted E t =
     (is_trigger_type E (trigger_type t) \<and>
      (case t of KeywordPresetTrigger _ ls \<Rightarrow> list_all (is_language_type E) ls | _ \<Rightarrow> True))"

definition registered :: "automod_enums \<Rightarrow> trigger \<Rightarrow> bool" where
  \<comment> \<open>The instance's \<open>type\<close> is the tag under which \<open>TRIGGER_MAPPING\<close> lists the
      instance's class; for a plain BaseTrigger, a tag the table does not list.\<close>
  "registered E t =
     (map_of (TRIGGER_MAPPING E) (trigger_type t) =
        (if trigger_class_of t = BaseTriggerC then None else Some (trigger_class_of t)))"

definition unknown_trigger_type :: "automod_enums \<Rightarrow> pydict \<Rightarrow> bool" where
  "unknown_trigger_type E data =
     (mapping_get (TRIGGER_MAPPING E) (dict_get data ''trigger_type'') = Inr None)"

definition unknown_action_type :: "automod_enums \<Rightarrow> pydict \<Rightarrow> bool" where
  "unknown_action_type E data =
     (mapping_get (ACTION_MAPPING E) (dict_get data ''type'') = Inr None)"

definition trigger_payload :: "pydict \<Rightarrow> pydict" where
  \<comment> \<open>The payload \<open>BaseTrigger.from_dict_factory\<close> hands to \<open>from_dict\<close>.\<close>
  "trigger_payload data =
     [(''type'', dict_get data ''trigger_type''),
      (''trigger_metadata'', dict_get_default data ''trigger_metadata'' (PDict []))]"

fun is_store :: "effect \<Rightarrow> bool" where
  "is_store (Stored k i) = True"
| "is_store (Evicted g) = False"
| "is_store (Dispatched ev) = False"

definition stores_since :: "client \<Rightarrow> client \<Rightarrow> bool" where
  \<comment> \<open>From the first client to the second, the trace grew by store writes only: nothing
      was dispatched and nothing evicted.\<close>
  "stores_since s s' =
     (take (length (trace s)) (trace s') = trace s \<and>
      list_all is_store (drop (length (trace s)) (trace s')))"

definition embedded_ids :: "pyval list \<Rightarrow> error + int list" where
  \<comment> \<open>The identifiers of a list of embedded objects, in order.\<close>
  "embedded_ids vs =
     convert_all (\<lambda>v. case entity_id v of Inl e \<Rightarrow> Inl e | Inr (i, d) \<Rightarrow> Inr i) vs"

definition insertion_order :: "int list \<Rightarrow> int list" where
  \<comment> \<open>The keys of a dict into which the keys of the list were written in order: every
      key once, at the place of its first occurrence.\<close>
  "insertion_order ks = fold (\<lambda>k seen. if k \<in> set seen then seen else seen @ [k]) ks []"

definition unreferenced :: "client \<Rightarrow> nat \<Rightarrow> bool" where
  \<comment> \<open>No store holds the object at this address.\<close>
  "unreferenced s b =
     ((\<forall>i. guild_cache s i \<noteq> Some b) \<and> (\<forall>i. channel_cache s i \<noteq> Some b) \<and>
      (\<forall>k. member_cache s k \<noteq> Some b) \<and> (\<forall>k. role_cache s k \<noteq> Some b) \<and>
      (\<forall>i. user_cache s i \<noteq> Some b) \<and>
      (\<forall>m i. emoji_cache s = Some m \<longrightarrow> m i \<noteq> Some b))"


definition undisturbed :: "nat \<Rightarrow> client \<Rightarrow> client \<Rightarrow> bool" where
  \<comment> \<open>What the store writes other than a guild's own \<open>put\<close> leave alone: the client's
      flags, its guild identifiers and the guild store; the trace grows by store writes
      only; and an allocated object that no store holds keeps its fields and stays
      unheld.\<close>
  "undisturbed b s s' =
     (fetch_members s' = fetch_members s \<and> chunked s' = chunked s \<and>
      guild_ids s' = guild_ids s \<and> guild_event s' = guild_event s \<and>
      guild_cache s' = guild_cache s \<and> stores_since s s' \<and>
      (unreferenced s b \<and> b < next_addr s \<longrightarrow>
         unreferenced s' b \<and> b < next_addr s' \<and> heap s' b = heap s b))"

definition cached_guild_client :: client where
  \<comment> \<open>A client whose guild store holds guild 42, not marked unavailable, and whose user
      is in that guild.\<close>
  "cached_guild_client =
     empty_client
       \<lparr> heap := [0 \<mapsto> [(''id'', PInt 42), (''name'', PStr ''Old''), (''unavailable'', PBool False)]],
         next_addr := 1, guild_cache := [42 \<mapsto> 0], guild_ids := {42} \<rparr>"

definition emoji_client :: client where
  \<comment> \<open>A client with the emoji cache enabled, holding emoji 1.\<close>
  "emoji_client =
     empty_client
       \<lparr> heap := [0 \<mapsto> [(''id'', PInt 1), (''name'', PStr ''old'')]],
         next_addr := 1, emoji_cache := Some [1 \<mapsto> 0] \<rparr>"

definition spec_example_payload :: pydict where
  \<comment> \<open>The guild payload of the spec's example.\<close>
  "spec_example_payload =
     [(''id'', PInt 42), (''owner_id'', PInt 7),
      (''channels'', PList [PDict [(''id'', PInt 100), (''type'', PStr ''text'')]]),
      (''roles'', PList [PDict [(''id'', PInt 200), (''name'', PStr ''admin'')]])]"

definition repeated_role_payload :: pydict where
  \<comment> \<open>A guild payload whose role list holds two objects with one identifier.\<close>
  "repeated_role_payload =
     [(''id'', PInt 42),
      (''roles'', PList [PDict [(''id'', PInt 200), (''name'', PStr ''admin'')],
                         PDict [(''id'', PInt 200), (''name'', PStr ''staff'')]])]"

section \<open>Evaluation on concrete inputs\<close>


lemmas eval_process_dict =
  process_dict_def decompose_field_def dict_item_def dict_get_default_def py_iter_def
  place_channel_data_def place_member_data_def place_role_data_def entity_id_def to_snowflake_def
  put_def new_object_def obj_id_def obj_fields_def dict_get_def dict_or_def Let_def

section \<open>Auto-moderation: serialization and the factories\<close>

lemma map_of_dict_or_notin:
  "k \<notin> fst ` set b \<Longrightarrow> map_of (dict_or a b) k = map_of a k"
  unfolding dict_or_def
  by (induction b arbitrary: a) (auto simp: update_conv')

lemma map_of_filter_kwargs:
  "map_of (filter_kwargs keys d) k = (if k \<in> set keys then map_of d k else None)"
  unfolding filter_kwargs_def
  by (induction d) auto

lemma convert_all_members:
  "list_all acc ls \<Longrightarrow> convert_all (enum_converter acc) (map PInt ls) = Inr ls"
  by (induction ls) (simp_all add: enum_converter_def int_key_def)

lemma trigger_as_dict_shape:
  "trigger_as_dict t =
     [(''trigger_metadata'', PDict (filter (\<lambda>(k, v). k \<noteq> ''type'') (trigger_asdict t))),
      (''trigger_type'', PInt (trigger_type t))]"
  by (cases t)
     (simp_all add: trigger_as_dict_def pop_all_but_type_def trigger_asdict_def trigger_type_def
        dict_get_def)

lemma trigger_fallback:
  assumes "unknown_trigger_type E data"
  shows "trigger_from_dict_factory E cls data =
           ([UnknownTriggerType data], trigger_from_dict E cls (trigger_payload data))"
  using assms
  by (simp add: unknown_trigger_type_def trigger_from_dict_factory_def trigger_payload_def Let_def)

lemma base_trigger_constructed:
  assumes "int_key (dict_get data ''trigger_type'') = Some n" and "is_trigger_type E n"
    and "dict_get_default data ''trigger_metadata'' (PDict []) = PDict m"
    and "''type'' \<notin> fst ` set m"
  shows "trigger_from_dict E BaseTriggerC (trigger_payload data) = Inr (BaseTrigger n)"
proof -
  let ?p = "trigger_payload data"
  have "map_of (dict_or ?p m) ''type'' = Some (dict_get data ''trigger_type'')"
    using assms(4) by (simp add: map_of_dict_or_notin trigger_payload_def)
  moreover have "map_of ?p ''type'' = Some (dict_get data ''trigger_type'')"
    by (simp add: trigger_payload_def)
  moreover have "dict_get ?p ''trigger_metadata'' = PDict m"
    using assms(3) by (simp add: trigger_payload_def dict_get_def)
  ultimately show ?thesis
    using assms(1,2)
    by (simp add: trigger_from_dict_def trigger_process_dict_def trigger_init_def
          map_of_filter_kwargs trigger_init_keys_def enum_converter_def)
qed

lemma action_fallback:
  assumes "unknown_action_type E data"
  shows "fst (action_from_dict_factory E cls data) = [UnknownActionType data]"
    and "map_of data ''metadata'' = Some (PDict m) \<Longrightarrow>
         snd (action_from_dict_factory E cls data) =
           action_from_dict E cls (dict_or [(''type'', dict_get data ''type'')] m)"
  using assms
  by (simp_all add: unknown_action_type_def action_from_dict_factory_def Let_def dict_item_def
        split: option.splits sum.splits pyval.splits)

lemma base_action_constructed:
  assumes "int_key (dict_get data ''type'') = Some n" and "is_action E n"
    and "''type'' \<notin> fst ` set m"
  shows "action_from_dict E BaseActionC (dict_or [(''type'', dict_get data ''type'')] m) =
           Inr (BaseAction n)"
proof -
  have "map_of (dict_or [(''type'', dict_get data ''type'')] m) ''type'' =
          Some (dict_get data ''type'')"
    using assms(3) by (simp add: map_of_dict_or_notin)
  then show ?thesis
    using assms(1,2)
    by (simp add: action_from_dict_def action_init_def map_of_filter_kwargs action_init_keys_def
          enum_converter_def)
qed

text \<open>
  Claim C10, as amended. \<open>as_dict\<close> folds the fields other than \<open>type\<close> under
  \<open>trigger_metadata\<close> and puts the tag under \<open>trigger_type\<close>, for every trigger. Applying
  \<open>BaseTrigger.from_dict_factory\<close> to that dict gives back a trigger of the same class
  with the same field values when the trigger's \<open>type\<close> field is the tag under which
  \<open>TRIGGER_MAPPING\<close> lists its class (for a plain BaseTrigger: a tag the table does not
  list), the enum-valued fields holding members of their enums.
\<close>

theorem trigger_round_trip:
  assumes "converted E t" and "registered E t"
  shows "trigger_as_dict t =
           [(''trigger_metadata'', PDict (filter (\<lambda>(k, v). k \<noteq> ''type'') (trigger_asdict t))),
            (''trigger_type'', PInt (trigger_type t))] \<and>
         snd (trigger_from_dict_factory E BaseTriggerC (trigger_as_dict t)) = Inr t"
proof
  show "trigger_as_dict t =
           [(''trigger_metadata'', PDict (filter (\<lambda>(k, v). k \<noteq> ''type'') (trigger_asdict t))),
            (''trigger_type'', PInt (trigger_type t))]"
    by (rule trigger_as_dict_shape)
  show "snd (trigger_from_dict_factory E BaseTriggerC (trigger_as_dict t)) = Inr t"
    using assms
    by (cases t)
       (simp_all add: trigger_as_dict_shape converted_def registered_def trigger_class_of_def
          trigger_type_def trigger_asdict_def dict_get_def dict_get_default_def Let_def
          trigger_from_dict_factory_def mapping_get_def hashable_def int_key_def
          trigger_from_dict_def trigger_process_dict_def dict_or_def
          trigger_init_def filter_kwargs_def trigger_init_keys_def enum_converter_def
          list_converter_def keyword_converter_def convert_all_members)
qed

theorem trigger_round_trip_witness:
  "converted discord_enums (KeywordTrigger 1 [PStr ''spam'']) \<and>
   registered discord_enums (KeywordTrigger 1 [PStr ''spam'']) \<and>
   trigger_as_dict (KeywordTrigger 1 [PStr ''spam'']) =
     [(''trigger_metadata'', PDict [(''keyword_filter'', PList [PStr ''spam''])]),
      (''trigger_type'', PInt 1)] \<and>
   snd (trigger_from_dict_factory discord_enums BaseTriggerC
          (trigger_as_dict (KeywordTrigger 1 [PStr ''spam'']))) =
     Inr (KeywordTrigger 1 [PStr ''spam''])"
proof -
  have c: "converted discord_enums (KeywordTrigger 1 [PStr ''spam''])"
    by (simp add: converted_def trigger_type_def discord_enums_def)
  have r: "registered discord_enums (KeywordTrigger 1 [PStr ''spam''])"
    by (simp add: registered_def trigger_type_def trigger_class_of_def TRIGGER_MAPPING_def
          discord_enums_def)
  show ?thesis
    using c r trigger_round_trip [OF c r]
    by (auto simp add: trigger_asdict_def trigger_type_def)
qed

text \<open>
  The claim as stated fails for a plain BaseTrigger whose \<open>type\<close> is a tag of the
  table: \<open>BaseTrigger(type=KEYWORD)\<close> comes back as a KeywordTrigger.
\<close>

theorem base_trigger_round_trip_counterexample:
  "converted discord_enums (BaseTrigger 1) \<and>
   snd (trigger_from_dict_factory discord_enums BaseTriggerC (trigger_as_dict (BaseTrigger 1))) =
     Inr (KeywordTrigger 1 []) \<and>
   trigger_class_of (KeywordTrigger 1 []) \<noteq> trigger_class_of (BaseTrigger 1)"
  by (simp add: trigger_as_dict_shape converted_def trigger_class_of_def
          trigger_type_def trigger_asdict_def dict_get_def dict_get_default_def Let_def
          trigger_from_dict_factory_def mapping_get_def hashable_def int_key_def
          trigger_from_dict_def trigger_process_dict_def dict_or_def TRIGGER_MAPPING_def
          trigger_init_def filter_kwargs_def trigger_init_keys_def enum_converter_def
          keyword_converter_def discord_enums_def)

text \<open>
  Claim C7, as amended. For a payload whose trigger type (action type) has no entry in
  \<open>TRIGGER_MAPPING\<close> (\<open>ACTION_MAPPING\<close>), the factory logs an error and falls back to
  the class it was called on: the result is what that class's \<open>from_dict\<close> makes of the
  payload. Called on the base class, as the sources do, with a tag the enum accepts and
  metadata that does not set \<open>type\<close>, the factory returns a BaseTrigger (BaseAction)
  record carrying the tag: the update is not dropped.
\<close>

theorem unknown_kind_falls_back:
  "(unknown_trigger_type E data \<longrightarrow>
      trigger_from_dict_factory E cls data =
        ([UnknownTriggerType data], trigger_from_dict E cls (trigger_payload data))) \<and>
   (unknown_trigger_type E data \<and> int_key (dict_get data ''trigger_type'') = Some n \<and>
    is_trigger_type E n \<and> dict_get_default data ''trigger_metadata'' (PDict []) = PDict m \<and>
    ''type'' \<notin> fst ` set m \<longrightarrow>
      trigger_from_dict_factory E BaseTriggerC data =
        ([UnknownTriggerType data], Inr (BaseTrigger n))) \<and>
   (unknown_action_type E adata \<and> map_of adata ''metadata'' = Some (PDict am) \<longrightarrow>
      action_from_dict_factory E acls adata =
        ([UnknownActionType adata],
         action_from_dict E acls (dict_or [(''type'', dict_get adata ''type'')] am))) \<and>
   (unknown_action_type E adata \<and> map_of adata ''metadata'' = Some (PDict am) \<and>
    int_key (dict_get adata ''type'') = Some an \<and> is_action E an \<and>
    ''type'' \<notin> fst ` set am \<longrightarrow>
      action_from_dict_factory E BaseActionC adata =
        ([UnknownActionType adata], Inr (BaseAction an)))"
proof (intro conjI impI)
  assume "unknown_trigger_type E data"
  then show "trigger_from_dict_factory E cls data =
        ([UnknownTriggerType data], trigger_from_dict E cls (trigger_payload data))"
    by (rule trigger_fallback)
next
  assume a: "unknown_trigger_type E data \<and> int_key (dict_get data ''trigger_type'') = Some n \<and>
    is_trigger_type E n \<and> dict_get_default data ''trigger_metadata'' (PDict []) = PDict m \<and>
    ''type'' \<notin> fst ` set m"
  then have "trigger_from_dict E BaseTriggerC (trigger_payload data) = Inr (BaseTrigger n)"
    by (blast intro: base_trigger_constructed)
  with a show "trigger_from_dict_factory E BaseTriggerC data =
        ([UnknownTriggerType data], Inr (BaseTrigger n))"
    by (simp add: trigger_fallback)
next
  assume a: "unknown_action_type E adata \<and> map_of adata ''metadata'' = Some (PDict am)"
  then show "action_from_dict_factory E acls adata =
        ([UnknownActionType adata],
         action_from_dict E acls (dict_or [(''type'', dict_get adata ''type'')] am))"
    by (simp add: prod_eq_iff action_fallback)
next
  assume a: "unknown_action_type E adata \<and> map_of adata ''metadata'' = Some (PDict am) \<and>
    int_key (dict_get adata ''type'') = Some an \<and> is_action E an \<and>
    ''type'' \<notin> fst ` set am"
  then have "action_from_dict E BaseActionC (dict_or [(''type'', dict_get adata ''type'')] am) =
           Inr (BaseAction an)"
    by (blast intro: base_action_constructed)
  with a show "action_from_dict_factory E BaseActionC adata =
        ([UnknownActionType adata], Inr (BaseAction an))"
    by (simp add: prod_eq_iff action_fallback)
qed

theorem unknown_kind_falls_back_witness:
  "unknown_trigger_type discord_enums [(''trigger_type'', PInt 3)] \<and>
   int_key (dict_get [(''trigger_type'', PInt 3)] ''trigger_type'') = Some 3 \<and>
   is_trigger_type discord_enums 3 \<and>
   trigger_from_dict_factory discord_enums BaseTriggerC [(''trigger_type'', PInt 3)] =
     ([UnknownTriggerType [(''trigger_type'', PInt 3)]], Inr (BaseTrigger 3)) \<and>
   unknown_action_type (discord_enums\<lparr>is_action := (\<lambda>n. 1 \<le> n \<and> n \<le> 4)\<rparr>)
     [(''type'', PInt 4), (''metadata'', PDict [])] \<and>
   action_from_dict_factory (discord_enums\<lparr>is_action := (\<lambda>n. 1 \<le> n \<and> n \<le> 4)\<rparr>) BaseActionC
       [(''type'', PInt 4), (''metadata'', PDict [])] =
     ([UnknownActionType [(''type'', PInt 4), (''metadata'', PDict [])]], Inr (BaseAction 4))"
proof -
  have t: "unknown_trigger_type discord_enums [(''trigger_type'', PInt 3)]"
    by (simp add: unknown_trigger_type_def mapping_get_def hashable_def int_key_def dict_get_def
          TRIGGER_MAPPING_def discord_enums_def)
  have a: "unknown_action_type (discord_enums\<lparr>is_action := (\<lambda>n. 1 \<le> n \<and> n \<le> 4)\<rparr>)
     [(''type'', PInt 4), (''metadata'', PDict [])]"
    by (simp add: unknown_action_type_def mapping_get_def hashable_def int_key_def dict_get_def
          ACTION_MAPPING_def discord_enums_def)
  have m: "is_trigger_type discord_enums 3"
    "is_action (discord_enums\<lparr>is_action := (\<lambda>n. 1 \<le> n \<and> n \<le> 4)\<rparr>) 4"
    by (simp_all add: discord_enums_def)
  show ?thesis
    using t a m
      unknown_kind_falls_back [of discord_enums "[(''trigger_type'', PInt 3)]" BaseTriggerC 3 "[]"
        "[]" "[]" BaseActionC 0]
      unknown_kind_falls_back [of "discord_enums\<lparr>is_action := (\<lambda>n. 1 \<le> n \<and> n \<le> 4)\<rparr>" "[]"
        BaseTriggerC 0 "[]" "[(''type'', PInt 4), (''metadata'', PDict [])]" "[]" BaseActionC 4]
    by (auto simp add: int_key_def dict_get_def dict_get_default_def)
qed

text \<open>
  The claim as stated fails: trigger type 3 has no entry in the table, and a record is
  constructed from the payload.
\<close>

theorem unknown_kind_counterexample:
  "unknown_trigger_type discord_enums [(''trigger_type'', PInt 3), (''trigger_metadata'', PDict [])] \<and>
   snd (trigger_from_dict_factory discord_enums BaseTriggerC
          [(''trigger_type'', PInt 3), (''trigger_metadata'', PDict [])]) =
     Inr (BaseTrigger 3)"
  by (simp add: unknown_trigger_type_def trigger_from_dict_factory_def mapping_get_def
        hashable_def int_key_def TRIGGER_MAPPING_def discord_enums_def dict_get_def
        dict_get_default_def trigger_from_dict_def trigger_process_dict_def
        trigger_init_def filter_kwargs_def trigger_init_keys_def enum_converter_def)

section \<open>Message accessors\<close>

text \<open>
  Claim C6, as amended. The accessors are functions of the client's stores alone: they
  run no coroutine and ask the origin layer for nothing. For a message whose channel
  identifier has no cached record, \<open>channel\<close> returns absence (None) when the message has a
  guild identifier; when it has none (None or 0), the accessor builds a DM channel
  object of its own with the message's channel identifier, its recipients the author if
  the author resolves. \<open>guild\<close> returns absence when the guild identifier is not cached.
\<close>

theorem uncached_channel_accessor:
  "(get_channel s (channel_id m) = None \<and> snowflake_truthy (guild_id m) \<longrightarrow>
      message_channel s m = NoChannel) \<and>
   (get_channel s (channel_id m) = None \<and> \<not> snowflake_truthy (guild_id m) \<longrightarrow>
      message_channel s m =
        DMChannel (channel_id m) (case message_author s m of Obj a \<Rightarrow> [Obj a] | _ \<Rightarrow> [])) \<and>
   ((\<forall>g. guild_id m = Some g \<longrightarrow> get_guild s g = None) \<longrightarrow> message_guild s m = None)"
  by (auto simp add: message_channel_def message_guild_def split: option.splits)

theorem uncached_channel_accessor_witness:
  "get_channel empty_client 5 = None \<and>
   snowflake_truthy (Some 9) \<and>
   message_channel empty_client \<lparr>channel_id = 5, guild_id = Some 9, author_id = Some 3\<rparr> = NoChannel \<and>
   \<not> snowflake_truthy None \<and>
   message_channel empty_client \<lparr>channel_id = 5, guild_id = None, author_id = Some 3\<rparr> = DMChannel 5 [] \<and>
   get_guild empty_client 9 = None \<and>
   message_guild empty_client \<lparr>channel_id = 5, guild_id = Some 9, author_id = Some 3\<rparr> = None"
  using uncached_channel_accessor [of empty_client "\<lparr>channel_id = 5, guild_id = Some 9, author_id = Some 3\<rparr>"]
    uncached_channel_accessor [of empty_client "\<lparr>channel_id = 5, guild_id = None, author_id = Some 3\<rparr>"]
  by (simp add: get_channel_def get_guild_def empty_client_def snowflake_truthy_def message_author_def
      get_member_def get_user_def)

text \<open>
  The claim as stated fails: for a message without a guild identifier whose channel is
  not cached, the accessor returns a channel object it made up, not absence.
\<close>

theorem dm_channel_counterexample:
  "get_channel empty_client 5 = None \<and>
   message_channel empty_client \<lparr>channel_id = 5, guild_id = None, author_id = None\<rparr> = DMChannel 5 [] \<and>
   DMChannel 5 [] \<noteq> NoChannel"
  by (simp add: message_channel_def get_channel_def empty_client_def snowflake_truthy_def message_author_def)

section \<open>Guild delete\<close>

lemma guild_delete_unavailable:
  assumes "py_int (dict_get data ''id'') = Inr g"
    and "truthy (dict_get_default data ''unavailable'' (PBool False))"
  shows "on_raw_guild_delete s data =
           Done (s\<lparr>trace := trace s @ [Dispatched (GuildUnavailable g (or_MISSING (get_guild s g)))]\<rparr>)"
  using assms by (simp add: on_raw_guild_delete_def dispatch_def)

lemma guild_delete_removed:
  assumes "py_int (dict_get data ''id'') = Inr g"
    and "\<not> truthy (dict_get_default data ''unavailable'' (PBool False))"
  shows "on_raw_guild_delete s data =
           Done (dispatch (GuildLeft g (or_MISSING (get_guild s g)))
                   (delete_guild (s\<lparr>guild_ids := guild_ids s - {g}\<rparr>) g))"
proof -
  have "g \<notin> guild_ids s \<Longrightarrow> s\<lparr>guild_ids := guild_ids s - {g}\<rparr> = s"
    by simp
  then show ?thesis
    using assms by (auto simp add: on_raw_guild_delete_def Let_def get_guild_def)
qed

text \<open>
  Claim C3, as amended. The processor branches on the truth value of the payload's
  \<open>unavailable\<close>. When it is true, nothing of the client changes but the trace: the
  guild's record stays in the store as it was (the processor does not write to it), and
  a GuildUnavailable event is dispatched with the cached record or MISSING. When it is
  false, the guild is evicted from the store first and a GuildLeft event is dispatched
  after, with the record that was cached (still on the heap) or MISSING.
\<close>

theorem guild_delete_unavailable_or_removed:
  assumes "py_int (dict_get data ''id'') = Inr g"
  shows "(truthy (dict_get_default data ''unavailable'' (PBool False)) \<longrightarrow>
            on_raw_guild_delete s data =
              Done (s\<lparr>trace := trace s @
                        [Dispatched (GuildUnavailable g (or_MISSING (get_guild s g)))]\<rparr>)) \<and>
         (\<not> truthy (dict_get_default data ''unavailable'' (PBool False)) \<longrightarrow>
            (\<exists>s'. on_raw_guild_delete s data = Done s' \<and>
                  get_guild s' g = None \<and>
                  guild_ids s' = guild_ids s - {g} \<and>
                  heap s' = heap s \<and>
                  trace s' = trace s @
                    [Evicted g, Dispatched (GuildLeft g (or_MISSING (get_guild s g)))]))"
  using guild_delete_unavailable [OF assms] guild_delete_removed [OF assms]
  by (simp add: dispatch_def delete_guild_def get_guild_def)

theorem guild_delete_unavailable_or_removed_witness:
  "py_int (dict_get [(''id'', PStr ''42''), (''unavailable'', PBool True)] ''id'') = Inr 42 \<and>
   truthy (dict_get_default [(''id'', PStr ''42''), (''unavailable'', PBool True)] ''unavailable'' (PBool False)) \<and>
   on_raw_guild_delete cached_guild_client [(''id'', PStr ''42''), (''unavailable'', PBool True)] =
     Done (cached_guild_client\<lparr>trace := [Dispatched (GuildUnavailable 42 (Obj 0))]\<rparr>) \<and>
   py_int (dict_get [(''id'', PStr ''42'')] ''id'') = Inr 42 \<and>
   \<not> truthy (dict_get_default [(''id'', PStr ''42'')] ''unavailable'' (PBool False)) \<and>
   (\<exists>s'. on_raw_guild_delete cached_guild_client [(''id'', PStr ''42'')] = Done s' \<and>
         get_guild s' 42 = None \<and> guild_ids s' = {} \<and> heap s' = heap cached_guild_client \<and>
         trace s' = [Evicted 42, Dispatched (GuildLeft 42 (Obj 0))])"
proof -
  have a: "py_int (dict_get [(''id'', PStr ''42''), (''unavailable'', PBool True)] ''id'') = Inr 42"
    and b: "py_int (dict_get [(''id'', PStr ''42'')] ''id'') = Inr 42"
    by (simp_all add: py_int_def dict_get_def digit_of_def)
  have c: "get_guild cached_guild_client 42 = Some 0" "trace cached_guild_client = []"
    "guild_ids cached_guild_client = {42}"
    by (simp_all add: cached_guild_client_def empty_client_def get_guild_def)
  show ?thesis
    using a b c
      guild_delete_unavailable_or_removed [OF a, of cached_guild_client]
      guild_delete_unavailable_or_removed [OF b, of cached_guild_client]
    by (simp add: dict_get_default_def or_MISSING_def)
qed

text \<open>
  The claim as stated fails in "marked unavailable": after an unavailable-kind delete
  for a cached guild, the cached record's \<open>unavailable\<close> field is what it was.
\<close>

theorem guild_not_marked_unavailable_counterexample:
  "on_raw_guild_delete cached_guild_client [(''id'', PInt 42), (''unavailable'', PBool True)] =
     Done (dispatch (GuildUnavailable 42 (Obj 0)) cached_guild_client) \<and>
   get_guild (dispatch (GuildUnavailable 42 (Obj 0)) cached_guild_client) 42 = Some 0 \<and>
   dict_get (obj_fields (dispatch (GuildUnavailable 42 (Obj 0)) cached_guild_client) 0) ''unavailable'' =
     PBool False"
  by (simp add: on_raw_guild_delete_def py_int_def dict_get_def dict_get_default_def get_guild_def
        or_MISSING_def cached_guild_client_def empty_client_def dispatch_def obj_fields_def)

text \<open>
  Claim C9. A removed-kind delete for a guild that is neither among the user's guild
  identifiers nor in the store returns normally: the set of guild identifiers is left
  as it is, \<open>delete_guild\<close> is called all the same, and GuildLeft is dispatched after
  it with the identifier and MISSING.
\<close>

theorem guild_delete_unknown_guild:
  assumes "py_int (dict_get data ''id'') = Inr g"
    and "\<not> truthy (dict_get_default data ''unavailable'' (PBool False))"
    and "g \<notin> guild_ids s" and "get_guild s g = None"
  shows "on_raw_guild_delete s data = Done (dispatch (GuildLeft g Missing) (delete_guild s g)) \<and>
         guild_ids (dispatch (GuildLeft g Missing) (delete_guild s g)) = guild_ids s \<and>
         trace (dispatch (GuildLeft g Missing) (delete_guild s g)) =
           trace s @ [Evicted g, Dispatched (GuildLeft g Missing)]"
proof -
  have "s\<lparr>guild_ids := guild_ids s - {g}\<rparr> = s"
    using assms(3) by simp
  then show ?thesis
    using guild_delete_removed [OF assms(1,2), of s] assms(4)
    by (simp add: or_MISSING_def dispatch_def delete_guild_def)
qed

theorem guild_delete_unknown_guild_witness:
  "py_int (dict_get [(''id'', PStr ''7'')] ''id'') = Inr 7 \<and>
   \<not> truthy (dict_get_default [(''id'', PStr ''7'')] ''unavailable'' (PBool False)) \<and>
   7 \<notin> guild_ids cached_guild_client \<and> get_guild cached_guild_client 7 = None \<and>
   on_raw_guild_delete cached_guild_client [(''id'', PStr ''7'')] =
     Done (dispatch (GuildLeft 7 Missing) (delete_guild cached_guild_client 7)) \<and>
   guild_ids (dispatch (GuildLeft 7 Missing) (delete_guild cached_guild_client 7)) = {42} \<and>
   trace (dispatch (GuildLeft 7 Missing) (delete_guild cached_guild_client 7)) =
     [Evicted 7, Dispatched (GuildLeft 7 Missing)]"
proof -
  have a: "py_int (dict_get [(''id'', PStr ''7'')] ''id'') = Inr 7"
    by (simp add: py_int_def dict_get_def digit_of_def)
  have b: "\<not> truthy (dict_get_default [(''id'', PStr ''7'')] ''unavailable'' (PBool False))"
    by (simp add: dict_get_default_def)
  have c: "7 \<notin> guild_ids cached_guild_client" "get_guild cached_guild_client 7 = None"
    "trace cached_guild_client = []" "guild_ids cached_guild_client = {42}"
    by (simp_all add: cached_guild_client_def empty_client_def get_guild_def)
  show ?thesis
    using a b c guild_delete_unknown_guild [OF a b c(1,2)]
    by simp
qed

section \<open>Emoji update\<close>

text \<open>
  Claim C5 at a concrete input: the emoji cache holds emoji 1, and the payload brings
  emoji 1 and emoji 2. The \<open>before\<close> list of the dispatched event holds a copy of the
  cached record of emoji 1 and, for emoji 2, None: \<open>copy.copy(None)\<close>, not MISSING.
\<close>

theorem emoji_before_holds_none:
  "(case on_raw_guild_emojis_update emoji_client
           [(''guild_id'', PInt 42),
            (''emojis'', PList [PDict [(''id'', PInt 1), (''name'', PStr ''new'')],
                                PDict [(''id'', PInt 2), (''name'', PStr ''other'')]])] of
      Done s' \<Rightarrow>
        trace s' = [Stored Emoji 1, Stored Emoji 2,
                    Dispatched (GuildEmojisUpdate (PInt 42) [Obj 1, PyNone] [0, 2])]
    | _ \<Rightarrow> False)"
  by (simp add: on_raw_guild_emojis_update_def emoji_client_def empty_client_def dict_get_def
        emoji_cache_truthy_def py_iter_def py_item_def dict_item_def get_emoji_def to_snowflake_def
        copy_copy_def new_object_def obj_fields_def place_emoji_data_def entity_id_def put_def
        dispatch_def Let_def)

section \<open>What the store writes leave alone\<close>

lemma stores_since_iff:
  "stores_since s s' \<longleftrightarrow> (\<exists>w. trace s' = trace s @ w \<and> list_all is_store w)"
proof
  assume "stores_since s s'"
  then have "trace s' = trace s @ drop (length (trace s)) (trace s')"
    and "list_all is_store (drop (length (trace s)) (trace s'))"
    unfolding stores_since_def by (metis append_take_drop_id, simp)
  then show "\<exists>w. trace s' = trace s @ w \<and> list_all is_store w" by blast
next
  assume "\<exists>w. trace s' = trace s @ w \<and> list_all is_store w"
  then show "stores_since s s'" unfolding stores_since_def by auto
qed





lemma undisturbed_stored:
  assumes "undisturbed b s s1"
  shows "stores_since s (s1\<lparr>trace := trace s1 @ [Stored k i]\<rparr>)"
  using assms unfolding undisturbed_def stores_since_iff by auto













section \<open>Guild create and the chunking gate\<close>





section \<open>Sub-entity updates\<close>











section \<open>Guild update\<close>



















section \<open>Guild decomposition\<close>

lemma embedded_ids_Cons:
  "embedded_ids (v # vs) = Inr is \<Longrightarrow>
     \<exists>i d js. entity_id v = Inr (i, d) \<and> embedded_ids vs = Inr js \<and> is = i # js"
  by (auto simp add: embedded_ids_def split: sum.splits)

lemma embedded_ids_Nil: "embedded_ids [] = Inr is \<Longrightarrow> is = []"
  by (simp add: embedded_ids_def)

lemma obj_id_put: "put s e i f = (s', a) \<Longrightarrow> obj_id s' a = PInt i"
  by (auto simp add: put_def new_object_def obj_id_def obj_fields_def dict_get_def update_conv'
        Let_def split: option.splits)

lemma place_channel_data_ok:
  assumes "entity_id v = Inr (i, d)"
  shows "\<exists>s' a. place_channel_data s v = Inr (s', a) \<and> obj_id s' a = PInt i \<and>
           trace s' = trace s @ [Stored Channel i] \<and>
           dom (channel_cache s') = insert i (dom (channel_cache s)) \<and>
           member_cache s' = member_cache s \<and> role_cache s' = role_cache s"
proof -
  obtain s1 a where p: "put s (channel_cache s i) i d = (s1, a)"
    by (cases "put s (channel_cache s i) i d")
  have "trace s1 = trace s \<and> channel_cache s1 = channel_cache s \<and>
        member_cache s1 = member_cache s \<and> role_cache s1 = role_cache s"
    using p by (auto simp add: put_def new_object_def Let_def split: option.splits)
  then show ?thesis
    using assms p obj_id_put [OF p]
    by (auto simp add: place_channel_data_def obj_id_def obj_fields_def)
qed

lemma place_member_data_ok:
  assumes "to_snowflake gid = Inr g" and "entity_id v = Inr (i, d)"
  shows "\<exists>s' a. place_member_data s gid v = Inr (s', a) \<and> obj_id s' a = PInt i \<and>
           trace s' = trace s @ [Stored Member i] \<and>
           dom (member_cache s') = insert (g, i) (dom (member_cache s)) \<and>
           channel_cache s' = channel_cache s \<and> role_cache s' = role_cache s"
proof -
  obtain s1 a where p: "put s (member_cache s (g, i)) i d = (s1, a)"
    by (cases "put s (member_cache s (g, i)) i d")
  have "trace s1 = trace s \<and> channel_cache s1 = channel_cache s \<and>
        member_cache s1 = member_cache s \<and> role_cache s1 = role_cache s"
    using p by (auto simp add: put_def new_object_def Let_def split: option.splits)
  then show ?thesis
    using assms p obj_id_put [OF p]
    by (auto simp add: place_member_data_def obj_id_def obj_fields_def)
qed

lemma place_ids_channels:
  assumes "embedded_ids vs = Inr cs"
  shows "\<exists>s'. place_ids place_channel_data s vs = Inr (s', map PInt cs) \<and>
           trace s' = trace s @ map (Stored Channel) cs \<and>
           dom (channel_cache s') = dom (channel_cache s) \<union> set cs \<and>
           member_cache s' = member_cache s \<and> role_cache s' = role_cache s"
  using assms
proof (induction vs arbitrary: s cs)
  case Nil
  then show ?case by (auto dest: embedded_ids_Nil)
next
  case (Cons v vs)
  from embedded_ids_Cons [OF Cons.prems] obtain i d js where
    e: "entity_id v = Inr (i, d)" and js: "embedded_ids vs = Inr js" and cs: "cs = i # js"
    by blast
  from place_channel_data_ok [OF e, of s] obtain s1 a where
    1: "place_channel_data s v = Inr (s1, a)" "obj_id s1 a = PInt i"
       "trace s1 = trace s @ [Stored Channel i]"
       "dom (channel_cache s1) = insert i (dom (channel_cache s))"
       "member_cache s1 = member_cache s" "role_cache s1 = role_cache s"
    by blast
  from Cons.IH [OF js, of s1] obtain s2 where
    2: "place_ids place_channel_data s1 vs = Inr (s2, map PInt js)"
       "trace s2 = trace s1 @ map (Stored Channel) js"
       "dom (channel_cache s2) = dom (channel_cache s1) \<union> set js"
       "member_cache s2 = member_cache s1" "role_cache s2 = role_cache s1"
    by blast
  show ?case
    using 1 2 cs by (intro exI [of _ s2]) auto
qed

lemma place_ids_members:
  assumes "to_snowflake gid = Inr g" and "embedded_ids vs = Inr ms"
  shows "\<exists>s'. place_ids (\<lambda>s v. place_member_data s gid v) s vs = Inr (s', map PInt ms) \<and>
           trace s' = trace s @ map (Stored Member) ms \<and>
           dom (member_cache s') = dom (member_cache s) \<union> {g} \<times> set ms \<and>
           channel_cache s' = channel_cache s \<and> role_cache s' = role_cache s"
  using assms(2)
proof (induction vs arbitrary: s ms)
  case Nil
  then show ?case by (auto dest: embedded_ids_Nil)
next
  case (Cons v vs)
  from embedded_ids_Cons [OF Cons.prems] obtain i d js where
    e: "entity_id v = Inr (i, d)" and js: "embedded_ids vs = Inr js" and ms: "ms = i # js"
    by blast
  from place_member_data_ok [OF assms(1) e, of s] obtain s1 a where
    1: "place_member_data s gid v = Inr (s1, a)" "obj_id s1 a = PInt i"
       "trace s1 = trace s @ [Stored Member i]"
       "dom (member_cache s1) = insert (g, i) (dom (member_cache s))"
       "channel_cache s1 = channel_cache s" "role_cache s1 = role_cache s"
    by blast
  from Cons.IH [OF js, of s1] obtain s2 where
    2: "place_ids (\<lambda>s v. place_member_data s gid v) s1 vs = Inr (s2, map PInt js)"
       "trace s2 = trace s1 @ map (Stored Member) js"
       "dom (member_cache s2) = dom (member_cache s1) \<union> {g} \<times> set js"
       "channel_cache s2 = channel_cache s1" "role_cache s2 = role_cache s1"
    by blast
  show ?case
    using 1 2 ms by (intro exI [of _ s2]) auto
qed

lemma place_roles_ok:
  assumes "embedded_ids vs = Inr rs"
  shows "\<exists>s' roles. place_roles s g vs acc = Inr (s', roles) \<and>
           map fst roles =
             fold (\<lambda>k seen. if k \<in> set seen then seen else seen @ [k]) rs (map fst acc) \<and>
           trace s' = trace s @ map (Stored Role) rs \<and>
           dom (role_cache s') = dom (role_cache s) \<union> {g} \<times> set rs \<and>
           channel_cache s' = channel_cache s \<and> member_cache s' = member_cache s"
  using assms
proof (induction vs arbitrary: s rs acc)
  case Nil
  then show ?case by (auto dest: embedded_ids_Nil)
next
  case (Cons v vs)
  from embedded_ids_Cons [OF Cons.prems] obtain i d js where
    e: "entity_id v = Inr (i, d)" and js: "embedded_ids vs = Inr js" and rs: "rs = i # js"
    by blast
  obtain s1 a where p: "put s (role_cache s (g, i)) i d = (s1, a)"
    by (cases "put s (role_cache s (g, i)) i d")
  have f: "trace s1 = trace s \<and> channel_cache s1 = channel_cache s \<and>
        member_cache s1 = member_cache s \<and> role_cache s1 = role_cache s"
    using p by (auto simp add: put_def new_object_def Let_def split: option.splits)
  let ?s2 = "s1\<lparr>role_cache := (role_cache s1)((g, i) \<mapsto> a), trace := trace s1 @ [Stored Role i]\<rparr>"
  from Cons.IH [OF js, of ?s2 "AList.update i a acc"] obtain s' roles where
    2: "place_roles ?s2 g vs (AList.update i a acc) = Inr (s', roles)"
       "map fst roles = fold (\<lambda>k seen. if k \<in> set seen then seen else seen @ [k]) js
                          (map fst (AList.update i a acc))"
       "trace s' = trace ?s2 @ map (Stored Role) js"
       "dom (role_cache s') = dom (role_cache ?s2) \<union> {g} \<times> set js"
       "channel_cache s' = channel_cache ?s2" "member_cache s' = member_cache ?s2"
    by blast
  show ?case
    using e p f 2 rs
    by (intro exI [of _ s'] exI [of _ roles]) (auto simp add: update_keys)
qed

lemma insertion_order_distinct_aux:
  "distinct rs \<Longrightarrow> set rs \<inter> set seen = {} \<Longrightarrow>
   fold (\<lambda>k seen. if k \<in> set seen then seen else seen @ [k]) rs seen = seen @ rs"
  by (induction rs arbitrary: seen) auto

lemma insertion_order_distinct: "distinct rs \<Longrightarrow> insertion_order rs = rs"
  using insertion_order_distinct_aux [of rs "[]"] by (simp add: insertion_order_def)

lemma decompose_field_ok:
  assumes "py_iter (dict_get_default data key (PList [])) = Inr vs"
    and "place_ids place s vs = Inr (s', ids)"
  shows "decompose_field place key ids_key s data =
           Inr (s', AList.update ids_key (PList ids) (AList.delete key data))"
  using assms by (simp add: decompose_field_def Let_def)

text \<open>
  Claim C1, as amended. For a guild payload with an identifier whose \<open>channels\<close>,
  \<open>threads\<close>, \<open>members\<close> and \<open>roles\<close> (each an empty list when missing) hold objects
  with identifiers, \<open>process_dict\<close> succeeds; it puts every embedded object into the
  store of its kind, one put per object in the order of the payload (threads into the
  channel store), after which every identifier is in that store; and in the normalized
  payload the four embedded fields are gone and \<open>channel_ids\<close>, \<open>thread_ids\<close> and
  \<open>member_ids\<close> hold exactly the identifiers of the objects in the order they appeared.
  \<open>role_ids\<close> holds the keys of the mapping \<open>place_role_data\<close> returns: every role
  identifier once, in the order of first appearance, which is the identifiers in order
  when they are pairwise distinct. The other fields pass through unchanged.
\<close>

theorem guild_process_dict_decomposes:
  assumes id: "map_of data ''id'' = Some gid" and g: "to_snowflake gid = Inr g"
    and c: "py_iter (dict_get_default data ''channels'' (PList [])) = Inr cvs"
           "embedded_ids cvs = Inr cs"
    and t: "py_iter (dict_get_default data ''threads'' (PList [])) = Inr tvs"
           "embedded_ids tvs = Inr ts"
    and m: "py_iter (dict_get_default data ''members'' (PList [])) = Inr mvs"
           "embedded_ids mvs = Inr ms"
    and r: "py_iter (dict_get_default data ''roles'' (PList [])) = Inr rvs"
           "embedded_ids rvs = Inr rs"
  shows "\<exists>s' data'. process_dict s data = Inr (s', data') \<and>
           map_of data' ''channel_ids'' = Some (PList (map PInt cs)) \<and>
           map_of data' ''thread_ids'' = Some (PList (map PInt ts)) \<and>
           map_of data' ''member_ids'' = Some (PList (map PInt ms)) \<and>
           map_of data' ''role_ids'' = Some (PList (map PInt (insertion_order rs))) \<and>
           (distinct rs \<longrightarrow> insertion_order rs = rs) \<and>
           map_of data' ''channels'' = None \<and> map_of data' ''threads'' = None \<and>
           map_of data' ''members'' = None \<and> map_of data' ''roles'' = None \<and>
           (\<forall>k. k \<notin> {''channels'', ''threads'', ''members'', ''roles'',
                       ''channel_ids'', ''thread_ids'', ''member_ids'', ''role_ids''} \<longrightarrow>
                 map_of data' k = map_of data k) \<and>
           trace s' = trace s @ map (Stored Channel) cs @ map (Stored Channel) ts @
                        map (Stored Member) ms @ map (Stored Role) rs \<and>
           dom (channel_cache s') = dom (channel_cache s) \<union> set cs \<union> set ts \<and>
           dom (member_cache s') = dom (member_cache s) \<union> {g} \<times> set ms \<and>
           dom (role_cache s') = dom (role_cache s) \<union> {g} \<times> set rs"
proof -
  from place_ids_channels [OF c(2), of s] obtain s1 where
    1: "place_ids place_channel_data s cvs = Inr (s1, map PInt cs)"
       "trace s1 = trace s @ map (Stored Channel) cs"
       "dom (channel_cache s1) = dom (channel_cache s) \<union> set cs"
       "member_cache s1 = member_cache s" "role_cache s1 = role_cache s"
    by blast
  let ?d1 = "AList.update ''channel_ids'' (PList (map PInt cs)) (AList.delete ''channels'' data)"
  have d1: "decompose_field place_channel_data ''channels'' ''channel_ids'' s data = Inr (s1, ?d1)"
    using c(1) 1(1) by (rule decompose_field_ok)
  from place_ids_channels [OF t(2), of s1] obtain s2 where
    2: "place_ids place_channel_data s1 tvs = Inr (s2, map PInt ts)"
       "trace s2 = trace s1 @ map (Stored Channel) ts"
       "dom (channel_cache s2) = dom (channel_cache s1) \<union> set ts"
       "member_cache s2 = member_cache s1" "role_cache s2 = role_cache s1"
    by blast
  let ?d2 = "AList.update ''thread_ids'' (PList (map PInt ts)) (AList.delete ''threads'' ?d1)"
  have "py_iter (dict_get_default ?d1 ''threads'' (PList [])) = Inr tvs"
    using t(1) by (simp add: dict_get_default_def update_conv' delete_conv')
  then have d2: "decompose_field place_channel_data ''threads'' ''thread_ids'' s1 ?d1 = Inr (s2, ?d2)"
    using 2(1) by (rule decompose_field_ok)
  from place_ids_members [OF g m(2), of s2] obtain s3 where
    3: "place_ids (\<lambda>s v. place_member_data s gid v) s2 mvs = Inr (s3, map PInt ms)"
       "trace s3 = trace s2 @ map (Stored Member) ms"
       "dom (member_cache s3) = dom (member_cache s2) \<union> {g} \<times> set ms"
       "channel_cache s3 = channel_cache s2" "role_cache s3 = role_cache s2"
    by blast
  let ?d3 = "AList.update ''member_ids'' (PList (map PInt ms)) (AList.delete ''members'' ?d2)"
  have "py_iter (dict_get_default ?d2 ''members'' (PList [])) = Inr mvs"
    using m(1) by (simp add: dict_get_default_def update_conv' delete_conv')
  then have d3: "decompose_field (\<lambda>s v. place_member_data s gid v) ''members'' ''member_ids'' s2 ?d2 =
                   Inr (s3, ?d3)"
    using 3(1) by (rule decompose_field_ok)
  from place_roles_ok [OF r(2), of s3 g "[]"] obtain s4 roles where
    4: "place_roles s3 g rvs [] = Inr (s4, roles)"
       "map fst roles = insertion_order rs"
       "trace s4 = trace s3 @ map (Stored Role) rs"
       "dom (role_cache s4) = dom (role_cache s3) \<union> {g} \<times> set rs"
       "channel_cache s4 = channel_cache s3" "member_cache s4 = member_cache s3"
    unfolding insertion_order_def by auto
  have "py_iter (dict_get_default ?d3 ''roles'' (PList [])) = Inr rvs"
    using r(1) by (simp add: dict_get_default_def update_conv' delete_conv')
  then have d4: "place_role_data s3 gid (dict_get_default ?d3 ''roles'' (PList [])) = Inr (s4, roles)"
    using g 4(1) by (simp add: place_role_data_def)
  have ids: "map (\<lambda>(i, a). PInt i) roles = map PInt (insertion_order rs)"
    using 4(2) by (metis (no_types, lifting) map_eq_conv map_map o_apply split_beta)
  let ?d4 = "AList.update ''role_ids'' (PList (map PInt (insertion_order rs)))
               (AList.delete ''roles'' ?d3)"
  have p: "process_dict s data = Inr (s4, ?d4)"
    using id d1 d2 d3 d4 ids by (simp add: process_dict_def dict_item_def Let_def)
  have look: "map_of ?d4 ''channel_ids'' = Some (PList (map PInt cs))"
    "map_of ?d4 ''thread_ids'' = Some (PList (map PInt ts))"
    "map_of ?d4 ''member_ids'' = Some (PList (map PInt ms))"
    "map_of ?d4 ''role_ids'' = Some (PList (map PInt (insertion_order rs)))"
    "map_of ?d4 ''channels'' = None" "map_of ?d4 ''threads'' = None"
    "map_of ?d4 ''members'' = None" "map_of ?d4 ''roles'' = None"
    by (simp_all add: update_conv' delete_conv')
  have rest: "\<forall>k. k \<notin> {''channels'', ''threads'', ''members'', ''roles'',
                       ''channel_ids'', ''thread_ids'', ''member_ids'', ''role_ids''} \<longrightarrow>
                 map_of ?d4 k = map_of data k"
    by (simp add: update_conv' delete_conv')
  have tr: "trace s4 = trace s @ map (Stored Channel) cs @ map (Stored Channel) ts @
                        map (Stored Member) ms @ map (Stored Role) rs"
    using 1(2) 2(2) 3(2) 4(3) by simp
  have doms: "dom (channel_cache s4) = dom (channel_cache s) \<union> set cs \<union> set ts"
    "dom (member_cache s4) = dom (member_cache s) \<union> {g} \<times> set ms"
    "dom (role_cache s4) = dom (role_cache s) \<union> {g} \<times> set rs"
    using 1 2 3 4 by auto
  show ?thesis
    using p look rest tr doms insertion_order_distinct [of rs]
    by (intro exI [of _ s4] exI [of _ ?d4]) blast
qed

theorem guild_process_dict_decomposes_witness:
  "map_of spec_example_payload ''id'' = Some (PInt 42) \<and> to_snowflake (PInt 42) = Inr 42 \<and>
   py_iter (dict_get_default spec_example_payload ''channels'' (PList [])) =
     Inr [PDict [(''id'', PInt 100), (''type'', PStr ''text'')]] \<and>
   embedded_ids [PDict [(''id'', PInt 100), (''type'', PStr ''text'')]] = Inr [100] \<and>
   py_iter (dict_get_default spec_example_payload ''threads'' (PList [])) = Inr [] \<and>
   py_iter (dict_get_default spec_example_payload ''members'' (PList [])) = Inr [] \<and>
   embedded_ids [] = Inr [] \<and>
   py_iter (dict_get_default spec_example_payload ''roles'' (PList [])) =
     Inr [PDict [(''id'', PInt 200), (''name'', PStr ''admin'')]] \<and>
   embedded_ids [PDict [(''id'', PInt 200), (''name'', PStr ''admin'')]] = Inr [200] \<and>
   (\<exists>s' data'. process_dict empty_client spec_example_payload = Inr (s', data') \<and>
      map_of data' ''id'' = Some (PInt 42) \<and> map_of data' ''owner_id'' = Some (PInt 7) \<and>
      map_of data' ''channel_ids'' = Some (PList [PInt 100]) \<and>
      map_of data' ''role_ids'' = Some (PList [PInt 200]) \<and>
      map_of data' ''channels'' = None \<and> map_of data' ''roles'' = None \<and>
      trace s' = [Stored Channel 100, Stored Role 200] \<and>
      dom (channel_cache s') = {100} \<and> dom (role_cache s') = {(42, 200)})"
proof -
  have h: "map_of spec_example_payload ''id'' = Some (PInt 42)" "to_snowflake (PInt 42) = Inr 42"
    "py_iter (dict_get_default spec_example_payload ''channels'' (PList [])) =
       Inr [PDict [(''id'', PInt 100), (''type'', PStr ''text'')]]"
    "embedded_ids [PDict [(''id'', PInt 100), (''type'', PStr ''text'')]] = Inr [100]"
    "py_iter (dict_get_default spec_example_payload ''threads'' (PList [])) = Inr []"
    "embedded_ids [] = Inr []"
    "py_iter (dict_get_default spec_example_payload ''members'' (PList [])) = Inr []"
    "embedded_ids [] = Inr []"
    "py_iter (dict_get_default spec_example_payload ''roles'' (PList [])) =
       Inr [PDict [(''id'', PInt 200), (''name'', PStr ''admin'')]]"
    "embedded_ids [PDict [(''id'', PInt 200), (''name'', PStr ''admin'')]] = Inr [200]"
    by (simp_all add: spec_example_payload_def to_snowflake_def dict_get_default_def py_iter_def
          embedded_ids_def entity_id_def dict_item_def)
  have e: "dom (channel_cache empty_client) = {}" "dom (role_cache empty_client) = {}"
    "trace empty_client = []"
    by (simp_all add: empty_client_def)
  have k: "map_of spec_example_payload ''owner_id'' = Some (PInt 7)"
    by (simp add: spec_example_payload_def)
  have ch: "dom (channel_cache empty_client) \<union> set [100::int] \<union> set [] = {100}"
    and ro: "dom (role_cache empty_client) \<union> {42::int} \<times> set [200::int] = {(42, 200)}"
    and tr: "trace empty_client @ map (Stored Channel) [100] @ map (Stored Channel) [] @
               map (Stored Member) [] @ map (Stored Role) [200] =
             [Stored Channel 100, Stored Role 200]"
    using e by simp_all
  from guild_process_dict_decomposes [OF h, of empty_client]
  have ex: "\<exists>s' data'. process_dict empty_client spec_example_payload = Inr (s', data') \<and>
      map_of data' ''id'' = Some (PInt 42) \<and> map_of data' ''owner_id'' = Some (PInt 7) \<and>
      map_of data' ''channel_ids'' = Some (PList [PInt 100]) \<and>
      map_of data' ''role_ids'' = Some (PList [PInt 200]) \<and>
      map_of data' ''channels'' = None \<and> map_of data' ''roles'' = None \<and>
      trace s' = [Stored Channel 100, Stored Role 200] \<and>
      dom (channel_cache s') = {100} \<and> dom (role_cache s') = {(42, 200)}"
  proof (elim exE conjE)
    fix s' data'
    assume p: "process_dict empty_client spec_example_payload = Inr (s', data')"
      and c1: "map_of data' ''channel_ids'' = Some (PList (map PInt [100]))"
      and r1: "map_of data' ''role_ids'' = Some (PList (map PInt (insertion_order [200])))"
      and di: "distinct [200::int] \<longrightarrow> insertion_order [200] = [200]"
      and n1: "map_of data' ''channels'' = None" and n2: "map_of data' ''roles'' = None"
      and rest: "\<forall>k. k \<notin> {''channels'', ''threads'', ''members'', ''roles'',
                ''channel_ids'', ''thread_ids'', ''member_ids'', ''role_ids''} \<longrightarrow>
          map_of data' k = map_of spec_example_payload k"
      and t1: "trace s' = trace empty_client @ map (Stored Channel) [100] @ map (Stored Channel) [] @
                 map (Stored Member) [] @ map (Stored Role) [200]"
      and dc: "dom (channel_cache s') = dom (channel_cache empty_client) \<union> set [100] \<union> set []"
      and dr: "dom (role_cache s') = dom (role_cache empty_client) \<union> {42} \<times> set [200]"
    have i1: "map_of data' ''id'' = Some (PInt 42)"
      using rest [rule_format, of "''id''"] h(1) by simp
    have i2: "map_of data' ''owner_id'' = Some (PInt 7)"
      using rest [rule_format, of "''owner_id''"] k by simp
    have r2: "map_of data' ''role_ids'' = Some (PList [PInt 200])"
      using r1 di by simp
    have c2: "map_of data' ''channel_ids'' = Some (PList [PInt 100])"
      using c1 by simp
    show ?thesis
      using p i1 i2 c2 r2 n1 n2 t1 [unfolded tr] dc [unfolded ch] dr [unfolded ro]
      by blast
  qed
  show ?thesis
    by (intro conjI; (fact h | fact ex))
qed

text \<open>
  The claim as stated fails for \<open>role_ids\<close> when two role objects carry one identifier:
  two objects are put, and \<open>role_ids\<close> holds one identifier.
\<close>

theorem repeated_role_ids_counterexample:
  "embedded_ids [PDict [(''id'', PInt 200), (''name'', PStr ''admin'')],
                 PDict [(''id'', PInt 200), (''name'', PStr ''staff'')]] = Inr [200, 200] \<and>
   (case process_dict empty_client repeated_role_payload of
      Inr (s', data') \<Rightarrow>
        map_of data' ''role_ids'' = Some (PList [PInt 200]) \<and>
        trace s' = [Stored Role 200, Stored Role 200]
    | Inl e \<Rightarrow> False)"
  by (simp add: repeated_role_payload_def empty_client_def embedded_ids_def eval_process_dict)

text \<open>
  The records of the spec's example, after the guild payload has been placed.
\<close>

lemma spec_example_guild_record:
  "(case place_guild_data empty_client spec_example_payload of
      Inr (s', guild) \<Rightarrow>
        obj_fields s' guild =
          [(''id'', PInt 42), (''owner_id'', PInt 7), (''channel_ids'', PList [PInt 100]),
           (''thread_ids'', PList []), (''member_ids'', PList []), (''role_ids'', PList [PInt 200])] \<and>
        (case get_channel s' 100 of
           Some c \<Rightarrow> obj_fields s' c = [(''id'', PInt 100), (''type'', PStr ''text'')]
         | None \<Rightarrow> False) \<and>
        (case role_cache s' (42, 200) of
           Some r \<Rightarrow> obj_fields s' r = [(''id'', PInt 200), (''name'', PStr ''admin'')]
         | None \<Rightarrow> False)
    | Inl e \<Rightarrow> False)"
  by (simp add: spec_example_payload_def empty_client_def place_guild_data_def get_channel_def
        eval_process_dict)

end
